theory Spec2Isabelle
  imports Complex_Main
begin

section \<open>JavaScript values\<close>

text \<open>
  A JavaScript string is a sequence of UTF-16 code units. All strings of the program are
  modelled as lists of code units (natural numbers); \<open>lit\<close> embeds an ASCII literal.
\<close>

type_synonym jstr = "nat list"

definition lit :: "string \<Rightarrow> jstr" where
  "lit s = map of_char s"

text \<open>
  Values that arrive as parsed JSON (the inbound body, the provider's response body).
  An object is the association list of its own properties; \<open>None\<close> of type
  \<open>json option\<close> stands for \<open>undefined\<close>.
\<close>

datatype json =
    JNull
  | JBool bool
  | JNum rat
  | JStr jstr
  | JArr "json list"
  | JObj "(jstr \<times> json) list"

text \<open>Truthiness, as \<open>!v\<close>, \<open>v && ...\<close> and \<open>v || ...\<close> test it.\<close>

fun truthy :: "json option \<Rightarrow> bool" where
  "truthy None = False"
| "truthy (Some JNull) = False"
| "truthy (Some (JBool b)) = b"
| "truthy (Some (JNum n)) = (n \<noteq> 0)"
| "truthy (Some (JStr s)) = (s \<noteq> [])"
| "truthy (Some (JArr xs)) = True"
| "truthy (Some (JObj kvs)) = True"

text \<open>\<open>typeof v === 'object'\<close>: true of null, arrays and objects.\<close>

fun typeofObject :: "json option \<Rightarrow> bool" where
  "typeofObject (Some JNull) = True"
| "typeofObject (Some (JArr xs)) = True"
| "typeofObject (Some (JObj kvs)) = True"
| "typeofObject _ = False"

text \<open>
  \<open>v[k]\<close> on a value that is neither null nor undefined, for a property name \<open>k\<close>
  that no built-in prototype defines (the program reads only such names): an object
  answers with its own property, every other value with \<open>undefined\<close>.
\<close>

fun getProp :: "jstr \<Rightarrow> json \<Rightarrow> json option" where
  "getProp k (JObj kvs) = map_of kvs k"
| "getProp k v = None"

text \<open>\<open>v?.k\<close>\<close>

fun optProp :: "jstr \<Rightarrow> json option \<Rightarrow> json option" where
  "optProp k None = None"
| "optProp k (Some JNull) = None"
| "optProp k (Some v) = getProp k v"

text \<open>
  \<open>v?.[0]\<close>: the first element of an array, the property \<open>"0"\<close> of an object, the
  first code unit of a string.
\<close>

fun optFirst :: "json option \<Rightarrow> json option" where
  "optFirst (Some (JArr xs)) = (case xs of [] \<Rightarrow> None | x # rest \<Rightarrow> Some x)"
| "optFirst (Some (JObj kvs)) = map_of kvs (lit ''0'')"
| "optFirst (Some (JStr s)) = (case s of [] \<Rightarrow> None | c # rest \<Rightarrow> Some (JStr [c]))"
| "optFirst v = None"

text \<open>\<open>v || d\<close>\<close>

definition orDefault :: "json option \<Rightarrow> json \<Rightarrow> json" where
  "orDefault v d = (case v of None \<Rightarrow> d | Some x \<Rightarrow> if truthy (Some x) then x else d)"

text \<open>
  \<open>String.prototype.trim\<close> removes WhiteSpace and LineTerminator code points from both
  ends: TAB, LF, VT, FF, CR, SPACE, NBSP, U+1680, U+2000 to U+200A, U+2028, U+2029,
  U+202F, U+205F, U+3000 and U+FEFF.
\<close>

definition isWhiteSpace :: "nat \<Rightarrow> bool" where
  "isWhiteSpace c =
     (c \<in> set [9, 10, 11, 12, 13, 32, 160, 5760, 8232, 8233, 8239, 8287, 12288, 65279]
      \<or> (8192 \<le> c \<and> c \<le> 8202))"

definition trim :: "jstr \<Rightarrow> jstr" where
  "trim s = rev (dropWhile isWhiteSpace (rev (dropWhile isWhiteSpace s)))"

text \<open>\<open>s.includes(p)\<close> (\<open>includes\<close> is a reserved word here)\<close>

fun isPrefix :: "jstr \<Rightarrow> jstr \<Rightarrow> bool" where
  "isPrefix [] s = True"
| "isPrefix (p # ps) [] = False"
| "isPrefix (p # ps) (c # cs) = (p = c \<and> isPrefix ps cs)"

fun strIncludes :: "jstr \<Rightarrow> jstr \<Rightarrow> bool" where
  "strIncludes [] p = isPrefix p []"
| "strIncludes (c # cs) p = (isPrefix p (c # cs) \<or> strIncludes cs p)"

text \<open>The decimal rendering of a non-negative integer inside a template literal.\<close>

fun showNat :: "nat \<Rightarrow> jstr" where
  "showNat n = (if n < 10 then [48 + n] else showNat (n div 10) @ [48 + n mod 10])"

declare showNat.simps [simp del]

section \<open>The service: types\<close>

text \<open>\<open>GeminiSource\<close> and \<open>GeminiResult\<close>. At run time the fields hold whatever the
  provider's JSON held, so they are JSON values.\<close>

record GeminiSource =
  uri :: json
  title :: json

record GeminiResult =
  rtext :: json
  sources :: "GeminiSource list"

text \<open>\<open>class GeminiAPIError extends Error\<close>: a message, an optional status, optional
  details.\<close>

record GeminiAPIError =
  message :: jstr
  status :: "nat option"
  details :: "json option"

definition newGeminiAPIError :: "jstr \<Rightarrow> nat option \<Rightarrow> json option \<Rightarrow> GeminiAPIError" where
  "newGeminiAPIError m s d = \<lparr>message = m, status = s, details = d\<rparr>"

text \<open>
  What a \<open>catch\<close> can receive: a \<open>GeminiAPIError\<close>, or another \<open>Error\<close> with its
  \<open>name\<close> and \<open>message\<close> (a \<open>TypeError\<close> of \<open>fetch\<close>, an \<open>AbortError\<close>, a
  \<open>SyntaxError\<close> of the JSON parser).
\<close>

datatype js_error =
    Classified GeminiAPIError
  | OtherError jstr jstr

text \<open>
  The provider's HTTP response, as \<open>fetch\<close> resolves with it once the headers are in:
  its status, and how the later read of its body (\<open>resp.text()\<close>, \<open>resp.json()\<close>) goes.
  The read delivers the body text, fails with an error (name, message), or never ends.
  \<open>resp.ok\<close> holds for the statuses 200 to 299.
\<close>

datatype body_read =
    BodyText jstr
  | BodyFails jstr jstr
  | BodyStalls

record Response =
  httpStatus :: nat
  bodyRead :: body_read

definition ok :: "Response \<Rightarrow> bool" where
  "ok resp = (200 \<le> httpStatus resp \<and> httpStatus resp \<le> 299)"

text \<open>
  How one outbound call behaves when nothing aborts it: it resolves with a response after
  some milliseconds, rejects with an error (name, message) after some milliseconds, or
  never settles.
\<close>

datatype fetch_behaviour =
    Resolves nat Response
  | Rejects nat jstr jstr
  | NeverSettles

text \<open>
  The world around one invocation: the credential read from the process environment,
  whether the runtime defines \<open>AbortController\<close>, the behaviour of the network for a
  given URL, request body and ordinal of the call, the JSON parser (\<open>Inl\<close> is the message
  of its \<open>SyntaxError\<close>), and the engine's message texts for an abort and for calling
  \<open>map\<close> on a value that has none.
\<close>

record env =
  GEMINI_API_KEY :: "jstr option"
  hasAbortController :: bool
  network :: "jstr \<Rightarrow> json \<Rightarrow> nat \<Rightarrow> fetch_behaviour"
  JSON_parse :: "jstr \<Rightarrow> jstr + json"
  abortMessage :: jstr
  notAFunctionMessage :: jstr

text \<open>The observable effects of the service: an outbound call (URL, request body, and the
  milliseconds of the abort timer armed for it) and a backoff delay.\<close>

datatype event =
    Fetch jstr json nat
  | Delay nat

section \<open>The service: functions\<close>

definition GEMINI_API_URL :: "env \<Rightarrow> jstr" where
  "GEMINI_API_URL e =
     lit ''https://generativelanguage.googleapis.com/v1beta/models/gemini-2.5-flash:generateContent?key=''
     @ (case GEMINI_API_KEY e of None \<Rightarrow> lit ''undefined'' | Some k \<Rightarrow> k)"

text \<open>The two directives; the Japanese one holds U+65E5 U+672C U+8A9E between the
  parentheses.\<close>

definition jaDirective :: jstr where
  "jaDirective =
     [10, 10] @ lit ''Always answer ONLY in Japanese ('' @ [26085, 26412, 35486]
     @ lit '') regardless of input language. Use natural, friendly Japanese.''"

definition enDirective :: jstr where
  "enDirective =
     [10, 10] @ lit ''Always answer ONLY in English regardless of input language. Use natural, friendly English.''"

definition buildFinalSystemInstruction :: "jstr option \<Rightarrow> jstr option \<Rightarrow> jstr" where
  "buildFinalSystemInstruction systemInstruction language =
     (let final = (case systemInstruction of None \<Rightarrow> [] | Some s \<Rightarrow> s) in
      if language = Some (lit ''ja-JP'') then final @ jaDirective
      else if language = Some (lit ''en-US'') then final @ enDirective
      else final)"

text \<open>The callback of \<open>arr.map\<close> in \<open>parseCandidateSources\<close>.\<close>

definition attributionSource :: "json \<Rightarrow> GeminiSource" where
  "attributionSource a =
     \<lparr>uri = orDefault (optProp (lit ''uri'') (optProp (lit ''web'') (Some a))) (JStr []),
      title = orDefault (optProp (lit ''title'') (optProp (lit ''web'') (Some a)))
                (JStr (lit ''External Source''))\<rparr>"

text \<open>\<open>parseCandidateSources\<close>. Calling \<open>map\<close> on a truthy value that is not an array
  throws a \<open>TypeError\<close>.\<close>

definition parseCandidateSources :: "env \<Rightarrow> json option \<Rightarrow> js_error + GeminiSource list" where
  "parseCandidateSources e candidate =
     (let groundingVal =
            (case candidate of
               None \<Rightarrow> None
             | Some c \<Rightarrow>
                 if truthy candidate \<and> typeofObject candidate
                 then getProp (lit ''groundingMetadata'') c else None)
      in case groundingVal of
           None \<Rightarrow> Inr []
         | Some grounding \<Rightarrow>
             if \<not> truthy groundingVal \<or> \<not> typeofObject groundingVal then Inr []
             else let groundingAttributions = getProp (lit ''groundingAttributions'') grounding
               in if \<not> truthy groundingAttributions then Inr []
                  else (case groundingAttributions of
                          Some (JArr arr) \<Rightarrow> Inr (map attributionSource arr)
                        | _ \<Rightarrow> Inl (OtherError (lit ''TypeError'') (notAFunctionMessage e))))"

definition maxAttempts :: nat where
  "maxAttempts = 2"

definition baseTimeoutMs :: nat where
  "baseTimeoutMs = 8000"

text \<open>The request body of \<open>callGemini\<close> (before \<open>JSON.stringify\<close>).\<close>

definition buildPayload :: "jstr \<Rightarrow> jstr \<Rightarrow> json" where
  "buildPayload promptText finalSystemInstruction =
     JObj [(lit ''contents'', JArr [JObj [(lit ''parts'', JArr [JObj [(lit ''text'', JStr promptText)]])]]),
           (lit ''systemInstruction'',
              JObj [(lit ''role'', JStr (lit ''system'')),
                    (lit ''parts'', JArr [JObj [(lit ''text'', JStr finalSystemInstruction)]])]),
           (lit ''tools'', JArr [JObj [(lit ''googleSearch'', JObj [])]])]"

text \<open>
  \<open>await fetch(..., {signal})\<close> with the timer of \<open>timeoutMs\<close> armed before it. When the
  runtime has \<open>AbortController\<close> the timer aborts a call whose promise has not settled
  when it fires, and the call rejects with an \<open>AbortError\<close>; without it the timer does
  nothing. \<open>None\<close>: the call never settles. A call that settles in the very millisecond
  the timer fires counts as aborted.
\<close>

definition abortError :: "env \<Rightarrow> js_error" where
  "abortError e = OtherError (lit ''AbortError'') (abortMessage e)"

fun awaitFetch :: "env \<Rightarrow> nat \<Rightarrow> fetch_behaviour \<Rightarrow> (js_error + Response) option" where
  "awaitFetch e timeoutMs (Resolves t resp) =
     (if hasAbortController e \<and> timeoutMs \<le> t then Some (Inl (abortError e))
      else Some (Inr resp))"
| "awaitFetch e timeoutMs (Rejects t n m) =
     (if hasAbortController e \<and> timeoutMs \<le> t then Some (Inl (abortError e))
      else Some (Inl (OtherError n m)))"
| "awaitFetch e timeoutMs NeverSettles =
     (if hasAbortController e then Some (Inl (abortError e)) else None)"

text \<open>\<open>details = JSON.parse(txt).error || txt\<close> inside \<open>try { } catch {}\<close>: an
  unparsable text and a parsed \<open>null\<close> both throw and leave \<open>txt\<close>.\<close>

definition errorDetails :: "env \<Rightarrow> jstr \<Rightarrow> json" where
  "errorDetails e txt =
     (case JSON_parse e txt of
        Inl m \<Rightarrow> JStr txt
      | Inr JNull \<Rightarrow> JStr txt
      | Inr v \<Rightarrow> orDefault (getProp (lit ''error'') v) (JStr txt))"

text \<open>\<open>result?.candidates?.[0]\<close> and \<open>candidate?.content?.parts?.[0]?.text\<close>\<close>

definition firstCandidate :: "json \<Rightarrow> json option" where
  "firstCandidate result = optFirst (optProp (lit ''candidates'') (Some result))"

definition candidateText :: "json option \<Rightarrow> json option" where
  "candidateText candidate =
     optProp (lit ''text'') (optFirst (optProp (lit ''parts'') (optProp (lit ''content'') candidate)))"

text \<open>
  Reading the body of a delivered response. The timer of the attempt is cleared before
  the read starts (\<open>clearTimeout\<close> right after \<open>await fetch\<close>), so nothing aborts it:
  \<open>None\<close> when the read never ends.
\<close>

definition readBody :: "Response \<Rightarrow> (js_error + jstr) option" where
  "readBody resp =
     (case bodyRead resp of
        BodyText txt \<Rightarrow> Some (Inr txt)
      | BodyFails n m \<Rightarrow> Some (Inl (OtherError n m))
      | BodyStalls \<Rightarrow> None)"

text \<open>The \<open>try\<close> block from the parsed body on: the text of the first candidate and its
  sources. \<open>bodyTxt\<close> is the body text that \<open>resp.json()\<close> has read.\<close>

definition parseResult :: "env \<Rightarrow> jstr \<Rightarrow> js_error + GeminiResult" where
  "parseResult e bodyTxt =
     (case JSON_parse e bodyTxt of
        Inl m \<Rightarrow> Inl (OtherError (lit ''SyntaxError'') m)
      | Inr result \<Rightarrow>
          (let candidate = firstCandidate result;
               txt = candidateText candidate
           in case txt of
                None \<Rightarrow>
                  Inl (Classified (newGeminiAPIError
                         (lit ''Could not parse response from Gemini API.'') (Some 500) (Some result)))
              | Some t \<Rightarrow>
                  if \<not> truthy txt then
                    Inl (Classified (newGeminiAPIError
                           (lit ''Could not parse response from Gemini API.'') (Some 500) (Some result)))
                  else
                    (case parseCandidateSources e candidate of
                       Inl err \<Rightarrow> Inl err
                     | Inr srcs \<Rightarrow> Inr \<lparr>rtext = t, sources = srcs\<rparr>)))"

text \<open>What the \<open>try\<close> block does with a response that \<open>fetch\<close> delivered; \<open>None\<close> when
  the body read never ends.\<close>

definition handleResponse :: "env \<Rightarrow> Response \<Rightarrow> (js_error + GeminiResult) option" where
  "handleResponse e resp =
     (if \<not> ok resp then
        (case readBody resp of
           None \<Rightarrow> None
         | Some (Inl err) \<Rightarrow> Some (Inl err)
         | Some (Inr txt) \<Rightarrow>
             Some (Inl (Classified (newGeminiAPIError
                    (lit ''Gemini API Error: '' @ showNat (httpStatus resp))
                    (Some (httpStatus resp))
                    (Some (errorDetails e txt))))))
      else
        (case readBody resp of
           None \<Rightarrow> None
         | Some (Inl err) \<Rightarrow> Some (Inl err)
         | Some (Inr txt) \<Rightarrow> Some (parseResult e txt)))"

text \<open>The \<open>try\<close> block of one attempt; \<open>None\<close> when neither the call nor the body read
  ever ends.\<close>

definition tryAttempt :: "env \<Rightarrow> json \<Rightarrow> nat \<Rightarrow> (js_error + GeminiResult) option" where
  "tryAttempt e payload attempt =
     (case awaitFetch e (baseTimeoutMs * attempt) (network e (GEMINI_API_URL e) payload attempt) of
        None \<Rightarrow> None
      | Some (Inl err) \<Rightarrow> Some (Inl err)
      | Some (Inr resp) \<Rightarrow> handleResponse e resp)"

text \<open>The end of the \<open>catch\<close> block, reached on the last attempt ("final failure:
  normalize error").\<close>

definition normalizeError :: "js_error \<Rightarrow> js_error" where
  "normalizeError err =
     (case err of
        Classified g \<Rightarrow> Classified g
      | OtherError n m \<Rightarrow>
          if n = lit ''AbortError''
          then Classified (newGeminiAPIError (lit ''Request to Gemini timed out'') None None)
          else Classified (newGeminiAPIError
                 (if m \<noteq> [] then m else lit ''Unknown error calling Gemini'') None None))"

text \<open>
  The \<open>for\<close> loop over the attempts, from \<open>attempt\<close> on, and the \<open>throw\<close> after it. The
  result pairs the effects in order with the outcome: \<open>None\<close> when the run never
  returns, \<open>Inl\<close> what it throws, \<open>Inr\<close> what it returns.
\<close>

function attempts :: "env \<Rightarrow> json \<Rightarrow> nat \<Rightarrow> event list \<times> (js_error + GeminiResult) option" where
  "attempts e payload attempt =
     (if attempt \<le> maxAttempts then
        (case tryAttempt e payload attempt of
           None \<Rightarrow> ([Fetch (GEMINI_API_URL e) payload (baseTimeoutMs * attempt)], None)
         | Some (Inr res) \<Rightarrow>
             ([Fetch (GEMINI_API_URL e) payload (baseTimeoutMs * attempt)], Some (Inr res))
         | Some (Inl err) \<Rightarrow>
             if attempt \<noteq> maxAttempts then
               (case attempts e payload (attempt + 1) of
                  (evs, res) \<Rightarrow>
                    (Fetch (GEMINI_API_URL e) payload (baseTimeoutMs * attempt)
                       # Delay (200 * attempt) # evs, res))
             else
               ([Fetch (GEMINI_API_URL e) payload (baseTimeoutMs * attempt)],
                Some (Inl (normalizeError err))))
      else
        ([], Some (Inl (Classified (newGeminiAPIError (lit ''Unexpected error in callGemini'') None None)))))"
  by pat_completeness auto
termination
  by (relation "measure (\<lambda>(e, payload, attempt). maxAttempts + 1 - attempt)") auto

declare attempts.simps [simp del]

definition callGemini ::
  "env \<Rightarrow> jstr \<Rightarrow> jstr \<Rightarrow> jstr option \<Rightarrow> event list \<times> (js_error + GeminiResult) option" where
  "callGemini e promptText systemInstruction language =
     (case GEMINI_API_KEY e of
        None \<Rightarrow>
          ([], Some (Inl (Classified (newGeminiAPIError
                 (lit ''Server-side Gemini API key not configured.'') None None))))
      | Some k \<Rightarrow>
          if k = [] then
            ([], Some (Inl (Classified (newGeminiAPIError
                   (lit ''Server-side Gemini API key not configured.'') None None))))
          else if promptText = [] \<or> trim promptText = [] then
            ([], Some (Inl (Classified (newGeminiAPIError (lit ''promptText is required'') None None))))
          else
            attempts e
              (buildPayload promptText (buildFinalSystemInstruction (Some systemInstruction) language))
              1)"

section \<open>The controller\<close>

text \<open>The three bodies the controller sends, and the response with its status.\<close>

datatype response_body =
    ErrorBody jstr
  | ErrorDetailsBody jstr "json option"
  | ResultBody GeminiResult

record NextResponse =
  body :: response_body
  statusCode :: nat

text \<open>\<open>typeof payload[k] === 'string' ? payload[k] : d\<close>\<close>

definition stringField :: "json \<Rightarrow> jstr \<Rightarrow> jstr option" where
  "stringField payload k = (case getProp k payload of Some (JStr s) \<Rightarrow> Some s | _ \<Rightarrow> None)"

text \<open>The \<open>message\<close> and \<open>details\<close> that the inner \<open>catch\<close> reads off what was thrown.\<close>

fun thrownMessage :: "js_error \<Rightarrow> jstr" where
  "thrownMessage (Classified g) = message g"
| "thrownMessage (OtherError n m) = m"

fun thrownDetails :: "js_error \<Rightarrow> json option" where
  "thrownDetails (Classified g) = details g"
| "thrownDetails (OtherError n m) = None"

text \<open>The inner \<open>catch\<close> block (the \<open>console.error\<close> line is not part of the model).\<close>

definition serviceFailure :: "js_error \<Rightarrow> NextResponse" where
  "serviceFailure err =
     \<lparr>body = ErrorDetailsBody
               (if thrownMessage err \<noteq> [] then thrownMessage err else lit ''Gemini service error'')
               (thrownDetails err),
      statusCode =
        (if thrownMessage err \<noteq> [] \<and> strIncludes (thrownMessage err) (lit ''Gemini API Error'')
         then 502 else 500)\<rparr>"

text \<open>
  \<open>handleGeminiRequest\<close>. The body is a parsed JSON value or \<open>undefined\<close>. Nothing in the
  outer \<open>try\<close> throws outside the inner one, so its \<open>catch\<close> ("Internal server error")
  has no branch here. The effects are those of \<open>callGemini\<close>; \<open>None\<close> when it never
  returns.
\<close>

definition handleGeminiRequest :: "env \<Rightarrow> json option \<Rightarrow> event list \<times> NextResponse option" where
  "handleGeminiRequest e reqBody =
     (let payload = (case reqBody of
                       None \<Rightarrow> JObj []
                     | Some b \<Rightarrow> if truthy reqBody \<and> typeofObject reqBody then b else JObj []);
          promptText = (case stringField payload (lit ''promptText'') of None \<Rightarrow> [] | Some s \<Rightarrow> s);
          systemInstruction =
            (case stringField payload (lit ''systemInstruction'') of None \<Rightarrow> [] | Some s \<Rightarrow> s);
          language = stringField payload (lit ''language'')
      in if promptText = [] then
           ([], Some \<lparr>body = ErrorBody (lit ''Missing promptText''), statusCode = 400\<rparr>)
         else
           (case callGemini e promptText systemInstruction language of
              (evs, None) \<Rightarrow> (evs, None)
            | (evs, Some (Inr result)) \<Rightarrow> (evs, Some \<lparr>body = ResultBody result, statusCode = 200\<rparr>)
            | (evs, Some (Inl err)) \<Rightarrow> (evs, Some (serviceFailure err))))"

section \<open>The shape of a citation\<close>

text \<open>The properties of an attribution's \<open>web\<close> object; none when the attribution has
  no such object.\<close>

fun webOf :: "json \<Rightarrow> (jstr \<times> json) list" where
  "webOf (JObj a) = (case map_of a (lit ''web'') of Some (JObj w) \<Rightarrow> w | _ \<Rightarrow> [])"
| "webOf v = []"

text \<open>
  One citation in the words of the specification: the web URI, or the empty string when it
  is missing; the web title, or the placeholder when it is missing. A property is missing
  when it is absent or null.
\<close>

definition claimedSource :: "json \<Rightarrow> GeminiSource" where
  "claimedSource a =
     \<lparr>uri = (case map_of (webOf a) (lit ''uri'') of
               None \<Rightarrow> JStr [] | Some JNull \<Rightarrow> JStr [] | Some u \<Rightarrow> u),
      title = (case map_of (webOf a) (lit ''title'') of
                 None \<Rightarrow> JStr (lit ''External Source'')
               | Some JNull \<Rightarrow> JStr (lit ''External Source'')
               | Some t \<Rightarrow> t)\<rparr>"

text \<open>The same with "missing" widened to every falsy value: absent, null, the empty
  string, zero and false.\<close>

fun blank :: "json option \<Rightarrow> bool" where
  "blank None = True"
| "blank (Some JNull) = True"
| "blank (Some (JStr s)) = (s = [])"
| "blank (Some (JNum n)) = (n = 0)"
| "blank (Some (JBool b)) = (b = False)"
| "blank (Some v) = False"

definition defaultedSource :: "json \<Rightarrow> GeminiSource" where
  "defaultedSource a =
     \<lparr>uri = (case map_of (webOf a) (lit ''uri'') of
               None \<Rightarrow> JStr [] | Some u \<Rightarrow> if blank (Some u) then JStr [] else u),
      title = (case map_of (webOf a) (lit ''title'') of
                 None \<Rightarrow> JStr (lit ''External Source'')
               | Some t \<Rightarrow> if blank (Some t) then JStr (lit ''External Source'') else t)\<rparr>"

section \<open>Sample environments\<close>

text \<open>
  Concrete worlds for the example runs below. \<open>dq\<close> writes a double-quoted JSON string
  token. The sample provider answers a grounded request with \<open>groundedBody\<close>, whose
  second attribution has an empty title and whose third has an empty \<open>web\<close> object.
\<close>

definition dq :: "string \<Rightarrow> jstr" where
  "dq s = [34] @ lit s @ [34]"

definition groundedBody :: jstr where
  "groundedBody =
     lit ''{'' @ dq ''candidates'' @ lit '':[{'' @ dq ''content'' @ lit '':{'' @ dq ''parts''
     @ lit '':[{'' @ dq ''text'' @ lit '':'' @ dq ''Sunny'' @ lit ''}]},'' @ dq ''groundingMetadata''
     @ lit '':{'' @ dq ''groundingAttributions'' @ lit '':[{'' @ dq ''web'' @ lit '':{'' @ dq ''uri''
     @ lit '':'' @ dq ''https://a.example'' @ lit '','' @ dq ''title'' @ lit '':'' @ dq ''A''
     @ lit ''}},{'' @ dq ''web'' @ lit '':{'' @ dq ''uri'' @ lit '':'' @ dq ''https://b.example''
     @ lit '','' @ dq ''title'' @ lit '':'' @ dq [] @ lit ''}},{'' @ dq ''web'' @ lit '':{}}]}}]}''"

definition groundedAttributions :: "json list" where
  "groundedAttributions =
     [JObj [(lit ''web'', JObj [(lit ''uri'', JStr (lit ''https://a.example'')),
                                (lit ''title'', JStr (lit ''A''))])],
      JObj [(lit ''web'', JObj [(lit ''uri'', JStr (lit ''https://b.example'')),
                                (lit ''title'', JStr [])])],
      JObj [(lit ''web'', JObj [])]]"

definition groundedJson :: json where
  "groundedJson =
     JObj [(lit ''candidates'',
       JArr [JObj
         [(lit ''content'', JObj [(lit ''parts'', JArr [JObj [(lit ''text'', JStr (lit ''Sunny''))]])]),
          (lit ''groundingMetadata'',
             JObj [(lit ''groundingAttributions'', JArr groundedAttributions)])]])]"

text \<open>A stand-in for \<open>JSON.parse\<close> that knows the sample bodies and rejects every other
  text.\<close>

text \<open>A success body whose only candidate has a part without text.\<close>

definition noTextBody :: jstr where
  "noTextBody =
     lit ''{'' @ dq ''candidates'' @ lit '':[{'' @ dq ''content'' @ lit '':{'' @ dq ''parts''
     @ lit '':[{}]}}]}''"

definition noTextJson :: json where
  "noTextJson =
     JObj [(lit ''candidates'',
       JArr [JObj [(lit ''content'', JObj [(lit ''parts'', JArr [JObj []])])]])]"

definition sampleParse :: "jstr \<Rightarrow> jstr + json" where
  "sampleParse txt =
     (if txt = noTextBody then Inr noTextJson
      else if txt = groundedBody then Inr groundedJson
      else Inl (lit ''Unexpected token''))"

text \<open>A world with a credential, in which the \<open>n\<close>-th outbound call behaves as
  \<open>script n\<close>.\<close>

definition sampleEnv :: "bool \<Rightarrow> (nat \<Rightarrow> fetch_behaviour) \<Rightarrow> env" where
  "sampleEnv ac script =
     \<lparr>GEMINI_API_KEY = Some (lit ''test-key''),
      hasAbortController = ac,
      network = (\<lambda>url payload n. script n),
      JSON_parse = sampleParse,
      abortMessage = lit ''This operation was aborted'',
      notAFunctionMessage = lit ''arr.map is not a function''\<rparr>"

definition rateLimited :: "nat \<Rightarrow> fetch_behaviour" where
  "rateLimited n =
     Resolves 150 \<lparr>httpStatus = 429, bodyRead = BodyText (lit ''Too Many Requests'')\<rparr>"

text \<open>A provider that answers 429 each time, and whose second body breaks off.\<close>

definition brokenBody :: "nat \<Rightarrow> fetch_behaviour" where
  "brokenBody n =
     Resolves 150
       \<lparr>httpStatus = 429,
        bodyRead = (if n = 2 then BodyFails (lit ''TypeError'') (lit ''terminated'')
                    else BodyText (lit ''Too Many Requests''))\<rparr>"


definition textless :: "nat \<Rightarrow> fetch_behaviour" where
  "textless n = Resolves 150 \<lparr>httpStatus = 200, bodyRead = BodyText noTextBody\<rparr>"

definition grounded :: "nat \<Rightarrow> nat \<Rightarrow> fetch_behaviour" where
  "grounded ms n = Resolves ms \<lparr>httpStatus = 200, bodyRead = BodyText groundedBody\<rparr>"

text \<open>A provider whose first answer has no text and whose later answers are grounded.\<close>

definition textlessThenGrounded :: "nat \<Rightarrow> fetch_behaviour" where
  "textlessThenGrounded n = (if n = 1 then textless n else grounded 150 n)"

definition unreachable :: "nat \<Rightarrow> fetch_behaviour" where
  "unreachable n = Rejects 30 (lit ''TypeError'') (lit ''fetch failed'')"

definition hanging :: "nat \<Rightarrow> fetch_behaviour" where
  "hanging n = NeverSettles"

text \<open>An inbound body \<open>{promptText: v}\<close>.\<close>

definition promptBody :: "json \<Rightarrow> json option" where
  "promptBody v = Some (JObj [(lit ''promptText'', v)])"

text \<open>Counting the effects of a run.\<close>

fun isFetch :: "event \<Rightarrow> bool" where
  "isFetch (Fetch url payload ms) = True"
| "isFetch (Delay ms) = False"

definition outboundCalls :: "event list \<Rightarrow> nat" where
  "outboundCalls evs = length (filter isFetch evs)"

definition backoffDelays :: "event list \<Rightarrow> nat list" where
  "backoffDelays evs = concat (map (\<lambda>ev. case ev of Fetch url payload ms \<Rightarrow> [] | Delay ms \<Rightarrow> [ms]) evs)"

section \<open>Basic facts\<close>

lemma lit_eq_iff: "lit a = lit b \<longleftrightarrow> a = b"
  by (simp add: lit_def inj_map_eq_map inj_on_def)

lemma lit_append: "lit (a @ b) = lit a @ lit b"
  by (simp add: lit_def)

lemma lit_empty_iff: "lit a = [] \<longleftrightarrow> a = []"
  by (simp add: lit_def)

lemma isPrefix_iff: "isPrefix p s \<longleftrightarrow> (\<exists>b. s = p @ b)"
  by (induction p s rule: isPrefix.induct) auto

text \<open>\<open>strIncludes\<close> is the substring relation.\<close>

lemma strIncludes_iff: "strIncludes s p \<longleftrightarrow> (\<exists>a b. s = a @ p @ b)"
proof (induction s)
  case Nil
  show ?case by (cases p) auto
next
  case (Cons c cs)
  show ?case
  proof
    assume "strIncludes (c # cs) p"
    then consider "isPrefix p (c # cs)" | "strIncludes cs p" by auto
    then show "\<exists>a b. c # cs = a @ p @ b"
    proof cases
      case 1
      then obtain b where "c # cs = p @ b" by (auto simp: isPrefix_iff)
      then have "c # cs = [] @ p @ b" by simp
      then show ?thesis by blast
    next
      case 2
      then obtain a b where "cs = a @ p @ b" using Cons.IH by blast
      then have "c # cs = (c # a) @ p @ b" by simp
      then show ?thesis by blast
    qed
  next
    assume "\<exists>a b. c # cs = a @ p @ b"
    then obtain a b where ab: "c # cs = a @ p @ b" by blast
    show "strIncludes (c # cs) p"
    proof (cases a)
      case Nil
      with ab have "isPrefix p (c # cs)" by (auto simp: isPrefix_iff)
      then show ?thesis by simp
    next
      case (Cons x xs)
      with ab have "cs = xs @ p @ b" by simp
      then have "strIncludes cs p" using Cons.IH by blast
      then show ?thesis by simp
    qed
  qed
qed

lemma trim_Nil: "trim [] = []"
  by (simp add: trim_def)

text \<open>The loop unrolled: the last attempt, then the first.\<close>

lemma attempts_last: "attempts e payload 2 =
  (case tryAttempt e payload 2 of
     None \<Rightarrow> ([Fetch (GEMINI_API_URL e) payload 16000], None)
   | Some (Inr res) \<Rightarrow> ([Fetch (GEMINI_API_URL e) payload 16000], Some (Inr res))
   | Some (Inl err) \<Rightarrow> ([Fetch (GEMINI_API_URL e) payload 16000], Some (Inl (normalizeError err))))"
  by (subst attempts.simps) (simp add: maxAttempts_def baseTimeoutMs_def split: option.splits sum.splits)

lemma attempts_first: "attempts e payload 1 =
  (case tryAttempt e payload 1 of
     None \<Rightarrow> ([Fetch (GEMINI_API_URL e) payload 8000], None)
   | Some (Inr res) \<Rightarrow> ([Fetch (GEMINI_API_URL e) payload 8000], Some (Inr res))
   | Some (Inl err) \<Rightarrow>
       (Fetch (GEMINI_API_URL e) payload 8000 # Delay 200 # fst (attempts e payload 2),
        snd (attempts e payload 2)))"
  by (subst attempts.simps)
     (simp add: maxAttempts_def baseTimeoutMs_def numeral_2_eq_2 split: option.splits sum.splits prod.splits)

lemma callGemini_attempts:
  assumes "GEMINI_API_KEY e = Some k" and "k \<noteq> []" and "trim p \<noteq> []"
  shows "callGemini e p si lang =
           attempts e (buildPayload p (buildFinalSystemInstruction (Some si) lang)) 1"
proof -
  from assms(3) have "p \<noteq> []" by (auto simp: trim_Nil)
  with assms show ?thesis by (simp add: callGemini_def)
qed

lemma showNat_nonempty: "showNat n \<noteq> []"
  by (subst showNat.simps) simp

lemma parseResult_message:
  "parseResult e txt = Inl (Classified g) \<Longrightarrow> message g \<noteq> []"
  by (auto simp: parseResult_def newGeminiAPIError_def lit_def Let_def parseCandidateSources_def
      split: if_splits sum.splits option.splits json.splits)

lemma handleResponse_message:
  "handleResponse e resp = Some (Inl (Classified g)) \<Longrightarrow> message g \<noteq> []"
  by (auto simp: handleResponse_def readBody_def newGeminiAPIError_def lit_def
      dest: parseResult_message split: if_splits sum.splits option.splits body_read.splits)

lemma tryAttempt_message:
  "tryAttempt e payload n = Some (Inl (Classified g)) \<Longrightarrow> message g \<noteq> []"
  by (cases "network e (GEMINI_API_URL e) payload n")
     (auto simp: tryAttempt_def abortError_def dest: handleResponse_message
       split: option.splits sum.splits if_splits)

lemma normalizeError_classified:
  "(\<And>g. err = Classified g \<Longrightarrow> message g \<noteq> []) \<Longrightarrow>
   \<exists>g. normalizeError err = Classified g \<and> message g \<noteq> []"
  by (cases err) (auto simp: normalizeError_def newGeminiAPIError_def lit_def)

lemma attempts_last_classified:
  assumes "snd (attempts e payload 2) = Some (Inl x)"
  shows "\<exists>g. x = Classified g \<and> message g \<noteq> []"
proof (cases "tryAttempt e payload 2")
  case None
  with assms show ?thesis by (simp add: attempts_last)
next
  case (Some r)
  show ?thesis
  proof (cases r)
    case (Inl err)
    with Some assms have x: "x = normalizeError err" by (simp add: attempts_last)
    have "\<And>g. err = Classified g \<Longrightarrow> message g \<noteq> []"
      using Some Inl tryAttempt_message by blast
    from normalizeError_classified [OF this] x show ?thesis by simp
  next
    case (Inr res)
    with Some assms show ?thesis by (simp add: attempts_last)
  qed
qed

lemma attempts_first_classified:
  assumes "snd (attempts e payload 1) = Some (Inl x)"
  shows "\<exists>g. x = Classified g \<and> message g \<noteq> []"
proof (cases "tryAttempt e payload 1")
  case None
  with assms show ?thesis by (simp add: attempts_first del: One_nat_def)
next
  case (Some r)
  show ?thesis
  proof (cases r)
    case (Inl err)
    with Some assms have "snd (attempts e payload 2) = Some (Inl x)"
      by (simp add: attempts_first del: One_nat_def)
    then show ?thesis by (rule attempts_last_classified)
  next
    case (Inr res)
    with Some assms show ?thesis by (simp add: attempts_first del: One_nat_def)
  qed
qed

text \<open>Every error the service lets out is a \<open>GeminiAPIError\<close> with a non-empty message.\<close>

lemma callGemini_classified:
  assumes "snd (callGemini e p si lang) = Some (Inl x)"
  shows "\<exists>g. x = Classified g \<and> message g \<noteq> []"
proof (cases "\<exists>k. GEMINI_API_KEY e = Some k \<and> k \<noteq> [] \<and> trim p \<noteq> []")
  case True
  then obtain k where "GEMINI_API_KEY e = Some k" "k \<noteq> []" "trim p \<noteq> []" by blast
  from callGemini_attempts [OF this] assms show ?thesis
    using attempts_first_classified by simp
next
  case False
  with assms show ?thesis
    by (auto simp: callGemini_def newGeminiAPIError_def lit_def split: option.splits if_splits)
qed

text \<open>With a non-empty string prompt the controller hands over to the service.\<close>

lemma handler_dispatch:
  assumes "map_of kvs (lit ''promptText'') = Some (JStr p)" and "p \<noteq> []"
  shows "handleGeminiRequest e (Some (JObj kvs)) =
     (case callGemini e p
             (case stringField (JObj kvs) (lit ''systemInstruction'') of None \<Rightarrow> [] | Some s \<Rightarrow> s)
             (stringField (JObj kvs) (lit ''language'')) of
        (evs, None) \<Rightarrow> (evs, None)
      | (evs, Some (Inr result)) \<Rightarrow> (evs, Some \<lparr>body = ResultBody result, statusCode = 200\<rparr>)
      | (evs, Some (Inl err)) \<Rightarrow> (evs, Some (serviceFailure err)))"
  using assms by (simp add: handleGeminiRequest_def stringField_def)

lemma sample_key: "GEMINI_API_KEY (sampleEnv ac script) = Some (lit ''test-key'')"
  by (simp add: sampleEnv_def)

lemma tryAttempt_delivered:
  assumes "awaitFetch e (8000 * n) (network e (GEMINI_API_URL e) payload n) = Some (Inr r)"
  shows "tryAttempt e payload n = handleResponse e r"
  using assms by (simp add: tryAttempt_def baseTimeoutMs_def)

lemma handleResponse_not_ok:
  "\<not> ok r \<Longrightarrow> bodyRead r = BodyText btxt \<Longrightarrow> handleResponse e r =
     Some (Inl (Classified \<lparr>message = lit ''Gemini API Error: '' @ showNat (httpStatus r),
                            status = Some (httpStatus r),
                            details = Some (errorDetails e btxt)\<rparr>))"
  by (simp add: handleResponse_def readBody_def newGeminiAPIError_def)

lemma handleResponse_not_ok_fails:
  "\<not> ok r \<Longrightarrow> bodyRead r \<noteq> BodyStalls \<Longrightarrow> \<exists>err. handleResponse e r = Some (Inl err)"
  by (cases "bodyRead r") (simp_all add: handleResponse_def readBody_def)

lemma handleResponse_no_text:
  assumes "ok r" and "bodyRead r = BodyText btxt" and "JSON_parse e btxt = Inr j"
    and "\<not> truthy (candidateText (firstCandidate j))"
  shows "handleResponse e r =
     Some (Inl (Classified \<lparr>message = lit ''Could not parse response from Gemini API.'',
                            status = Some 500, details = Some j\<rparr>))"
  using assms
  by (auto simp: handleResponse_def readBody_def parseResult_def newGeminiAPIError_def Let_def
      split: option.splits)

lemma attempts_last_events:
  "fst (attempts e payload 2) = [Fetch (GEMINI_API_URL e) payload 16000]"
  by (simp add: attempts_last split: option.splits sum.splits)

lemma attempts_last_outcome:
  "snd (attempts e payload 2) =
     (case tryAttempt e payload 2 of
        None \<Rightarrow> None
      | Some (Inr res) \<Rightarrow> Some (Inr res)
      | Some (Inl err) \<Rightarrow> Some (Inl (normalizeError err)))"
  by (simp add: attempts_last split: option.splits sum.splits)

lemma first_failure:
  assumes "tryAttempt e payload 1 = Some (Inl err1)"
  shows "attempts e payload 1 =
     ([Fetch (GEMINI_API_URL e) payload 8000, Delay 200, Fetch (GEMINI_API_URL e) payload 16000],
      snd (attempts e payload 2))"
  using assms by (simp add: attempts_first attempts_last_events del: One_nat_def)

lemma two_failures:
  assumes "tryAttempt e payload 1 = Some (Inl err1)" and "tryAttempt e payload 2 = Some (Inl err2)"
  shows "attempts e payload 1 =
     ([Fetch (GEMINI_API_URL e) payload 8000, Delay 200, Fetch (GEMINI_API_URL e) payload 16000],
      Some (Inl (normalizeError err2)))"
  using assms by (simp add: attempts_first attempts_last del: One_nat_def)

lemma upstream_message_includes:
  "\<exists>a b. lit ''Gemini API Error: '' @ s = a @ lit ''Gemini API Error'' @ b"
proof -
  have "lit ''Gemini API Error: '' @ s = [] @ lit ''Gemini API Error'' @ (lit '': '' @ s)"
    by (simp add: lit_def)
  then show ?thesis by blast
qed

lemma attributionSource_defaulted: "attributionSource a = defaultedSource a"
proof (cases a)
  case (JObj kvs)
  show ?thesis
  proof (cases "map_of kvs (lit ''web'')")
    case None
    with JObj show ?thesis
      by (simp add: attributionSource_def defaultedSource_def orDefault_def)
  next
    case (Some w)
    have blank_truthy: "blank v = (\<not> truthy v)" for v
      by (cases v rule: blank.cases) auto
    from JObj Some show ?thesis
      by (cases w)
         (auto simp: attributionSource_def defaultedSource_def orDefault_def blank_truthy
           split: option.splits)
  qed
qed (simp_all add: attributionSource_def defaultedSource_def orDefault_def)

lemma candidateText_object:
  assumes "truthy (candidateText cand)"
  shows "\<exists>c. cand = Some (JObj c)"
proof (cases cand)
  case None
  with assms show ?thesis by (simp add: candidateText_def)
next
  case (Some v)
  with assms show ?thesis by (cases v) (simp_all add: candidateText_def)
qed

lemma parseCandidateSources_object:
  assumes "parseCandidateSources e (Some (JObj c)) = Inr srcs"
  shows "srcs = (case map_of c (lit ''groundingMetadata'') of
                   Some (JObj g) \<Rightarrow>
                     (case map_of g (lit ''groundingAttributions'') of
                        Some (JArr arr) \<Rightarrow> map defaultedSource arr
                      | _ \<Rightarrow> [])
                 | _ \<Rightarrow> [])"
  using assms
  by (auto simp: parseCandidateSources_def Let_def attributionSource_defaulted
      split: option.splits json.splits if_splits)

text \<open>The sample worlds evaluated.\<close>

lemma sampleParse_other: "sampleParse (lit ''Too Many Requests'') = Inl (lit ''Unexpected token'')"
  by (simp add: sampleParse_def groundedBody_def noTextBody_def dq_def lit_def)

lemma sampleParse_noText: "sampleParse noTextBody = Inr noTextJson"
  by (simp add: sampleParse_def)

lemma sampleParse_grounded: "sampleParse groundedBody = Inr groundedJson"
  by (simp add: sampleParse_def) (simp add: groundedBody_def noTextBody_def dq_def lit_def)

lemma hi_trim: "trim (lit ''Hi'') \<noteq> []"
  by (simp add: trim_def lit_def isWhiteSpace_def)

lemma key_nonempty: "lit ''test-key'' \<noteq> []"
  by (simp add: lit_def)

lemma grounded_response:
  "handleResponse (sampleEnv ac script) \<lparr>httpStatus = 200, bodyRead = BodyText groundedBody\<rparr> =
     Some (Inr \<lparr>rtext = JStr (lit ''Sunny''),
          sources = [\<lparr>uri = JStr (lit ''https://a.example''), title = JStr (lit ''A'')\<rparr>,
                     \<lparr>uri = JStr (lit ''https://b.example''), title = JStr (lit ''External Source'')\<rparr>,
                     \<lparr>uri = JStr [], title = JStr (lit ''External Source'')\<rparr>]\<rparr>)"
  by (simp add: handleResponse_def readBody_def parseResult_def ok_def sampleEnv_def
      sampleParse_grounded groundedJson_def
      groundedAttributions_def firstCandidate_def candidateText_def parseCandidateSources_def
      attributionSource_def orDefault_def lit_eq_iff lit_empty_iff)

lemma sample_network: "network (sampleEnv ac script) url payload n = script n"
  by (simp add: sampleEnv_def)

lemma sample_tryAttempt:
  "tryAttempt (sampleEnv ac script) payload n =
     (case awaitFetch (sampleEnv ac script) (8000 * n) (script n) of
        None \<Rightarrow> None
      | Some (Inl err) \<Rightarrow> Some (Inl err)
      | Some (Inr resp) \<Rightarrow> handleResponse (sampleEnv ac script) resp)"
  by (simp add: tryAttempt_def sample_network baseTimeoutMs_def)

lemma sample_callGemini:
  "callGemini (sampleEnv ac script) (lit ''Hi'') [] None =
     attempts (sampleEnv ac script) (buildPayload (lit ''Hi'') []) 1"
  using callGemini_attempts [OF sample_key key_nonempty hi_trim, of ac script "[]" None]
  by (simp add: buildFinalSystemInstruction_def)

lemma unreachable_attempt:
  "tryAttempt (sampleEnv True unreachable) payload n =
     (if 8000 * n \<le> 30 then Some (Inl (OtherError (lit ''AbortError'') (lit ''This operation was aborted'')))
      else Some (Inl (OtherError (lit ''TypeError'') (lit ''fetch failed''))))"
  by (simp add: sample_tryAttempt unreachable_def abortError_def) (simp add: sampleEnv_def)

lemma unreachable_run:
  "callGemini (sampleEnv True unreachable) (lit ''Hi'') [] None =
     ([Fetch (GEMINI_API_URL (sampleEnv True unreachable)) (buildPayload (lit ''Hi'') []) 8000,
       Delay 200,
       Fetch (GEMINI_API_URL (sampleEnv True unreachable)) (buildPayload (lit ''Hi'') []) 16000],
      Some (Inl (Classified \<lparr>message = lit ''fetch failed'', status = None, details = None\<rparr>)))"
proof -
  have "attempts (sampleEnv True unreachable) (buildPayload (lit ''Hi'') []) 1 =
     ([Fetch (GEMINI_API_URL (sampleEnv True unreachable)) (buildPayload (lit ''Hi'') []) 8000,
       Delay 200,
       Fetch (GEMINI_API_URL (sampleEnv True unreachable)) (buildPayload (lit ''Hi'') []) 16000],
      Some (Inl (normalizeError (OtherError (lit ''TypeError'') (lit ''fetch failed'')))))"
    by (rule two_failures) (simp_all add: unreachable_attempt)
  then show ?thesis
    by (simp add: sample_callGemini normalizeError_def newGeminiAPIError_def lit_eq_iff lit_empty_iff)
qed

lemma rateLimited_attempt:
  "tryAttempt (sampleEnv True rateLimited) payload n =
     (if 8000 * n \<le> 150 then Some (Inl (OtherError (lit ''AbortError'') (lit ''This operation was aborted'')))
      else Some (Inl (Classified \<lparr>message = lit ''Gemini API Error: 429'', status = Some 429,
                               details = Some (JStr (lit ''Too Many Requests''))\<rparr>)))"
proof -
  have "lit ''Gemini API Error: '' @ showNat 429 = lit ''Gemini API Error: 429''"
    by (simp add: showNat.simps lit_def)
  moreover have "errorDetails (sampleEnv True rateLimited) (lit ''Too Many Requests'') =
      JStr (lit ''Too Many Requests'')"
    by (simp add: errorDetails_def sampleEnv_def sampleParse_other)
  ultimately show ?thesis
    by (simp add: sample_tryAttempt rateLimited_def abortError_def handleResponse_not_ok ok_def)
       (simp add: sampleEnv_def)
qed

lemma rateLimited_run:
  "callGemini (sampleEnv True rateLimited) (lit ''Hi'') [] None =
     ([Fetch (GEMINI_API_URL (sampleEnv True rateLimited)) (buildPayload (lit ''Hi'') []) 8000,
       Delay 200,
       Fetch (GEMINI_API_URL (sampleEnv True rateLimited)) (buildPayload (lit ''Hi'') []) 16000],
      Some (Inl (Classified \<lparr>message = lit ''Gemini API Error: 429'', status = Some 429,
                               details = Some (JStr (lit ''Too Many Requests''))\<rparr>)))"
proof -
  let ?g = "\<lparr>message = lit ''Gemini API Error: 429'', status = Some 429,
             details = Some (JStr (lit ''Too Many Requests''))\<rparr>"
  have "attempts (sampleEnv True rateLimited) (buildPayload (lit ''Hi'') []) 1 =
     ([Fetch (GEMINI_API_URL (sampleEnv True rateLimited)) (buildPayload (lit ''Hi'') []) 8000,
       Delay 200,
       Fetch (GEMINI_API_URL (sampleEnv True rateLimited)) (buildPayload (lit ''Hi'') []) 16000],
      Some (Inl (normalizeError (Classified ?g))))"
    by (rule two_failures) (simp_all add: rateLimited_attempt)
  then show ?thesis by (simp add: sample_callGemini normalizeError_def)
qed

lemma upstream_429_includes:
  "\<exists>a b. lit ''Gemini API Error: 429'' = a @ lit ''Gemini API Error'' @ b"
  using upstream_message_includes [of "lit ''429''"] by (simp add: lit_def)

lemma fetch_failed_excludes:
  "\<not> (\<exists>a b. lit ''fetch failed'' = a @ lit ''Gemini API Error'' @ b)"
  unfolding strIncludes_iff [symmetric] by (simp add: lit_def)

lemma hanging_attempt:
  "tryAttempt (sampleEnv True hanging) payload n =
     Some (Inl (OtherError (lit ''AbortError'') (lit ''This operation was aborted'')))"
  by (simp add: sample_tryAttempt hanging_def abortError_def) (simp add: sampleEnv_def)

lemma noText_no_text: "candidateText (firstCandidate noTextJson) = None"
  by (simp add: candidateText_def firstCandidate_def noTextJson_def lit_eq_iff)

lemma sample_parse: "JSON_parse (sampleEnv ac script) = sampleParse"
  by (simp add: sampleEnv_def)

lemma sample_abort: "hasAbortController (sampleEnv ac script) = ac"
  "abortMessage (sampleEnv ac script) = lit ''This operation was aborted''"
  by (simp_all add: sampleEnv_def)

lemma textless_response:
  "handleResponse (sampleEnv ac script) \<lparr>httpStatus = 200, bodyRead = BodyText noTextBody\<rparr> =
     Some (Inl (Classified \<lparr>message = lit ''Could not parse response from Gemini API.'',
                            status = Some 500, details = Some noTextJson\<rparr>))"
  by (rule handleResponse_no_text [where btxt = noTextBody])
     (simp_all add: ok_def sample_parse sampleParse_noText noText_no_text)

lemma textless_attempt:
  "tryAttempt (sampleEnv True textless) payload n =
     (if 8000 * n \<le> 150 then Some (Inl (OtherError (lit ''AbortError'') (lit ''This operation was aborted'')))
      else Some (Inl (Classified \<lparr>message = lit ''Could not parse response from Gemini API.'',
                                  status = Some 500, details = Some noTextJson\<rparr>)))"
  by (simp add: sample_tryAttempt textless_def abortError_def sample_abort textless_response)

lemma textless_run:
  "callGemini (sampleEnv True textless) (lit ''Hi'') [] None =
     ([Fetch (GEMINI_API_URL (sampleEnv True textless)) (buildPayload (lit ''Hi'') []) 8000,
       Delay 200,
       Fetch (GEMINI_API_URL (sampleEnv True textless)) (buildPayload (lit ''Hi'') []) 16000],
      Some (Inl (Classified \<lparr>message = lit ''Could not parse response from Gemini API.'',
                               status = Some 500, details = Some noTextJson\<rparr>)))"
proof -
  let ?g = "\<lparr>message = lit ''Could not parse response from Gemini API.'',
             status = Some 500, details = Some noTextJson\<rparr>"
  have "attempts (sampleEnv True textless) (buildPayload (lit ''Hi'') []) 1 =
     ([Fetch (GEMINI_API_URL (sampleEnv True textless)) (buildPayload (lit ''Hi'') []) 8000,
       Delay 200,
       Fetch (GEMINI_API_URL (sampleEnv True textless)) (buildPayload (lit ''Hi'') []) 16000],
      Some (Inl (normalizeError (Classified ?g))))"
    by (rule two_failures) (simp_all add: textless_attempt)
  then show ?thesis by (simp add: sample_callGemini normalizeError_def)
qed

lemma grounded_attempt:
  "tryAttempt (sampleEnv ac (grounded ms)) payload n =
     (if ac \<and> 8000 * n \<le> ms
      then Some (Inl (OtherError (lit ''AbortError'') (lit ''This operation was aborted'')))
      else Some (Inr \<lparr>rtext = JStr (lit ''Sunny''),
          sources = [\<lparr>uri = JStr (lit ''https://a.example''), title = JStr (lit ''A'')\<rparr>,
                     \<lparr>uri = JStr (lit ''https://b.example''), title = JStr (lit ''External Source'')\<rparr>,
                     \<lparr>uri = JStr [], title = JStr (lit ''External Source'')\<rparr>]\<rparr>))"
  by (simp add: sample_tryAttempt grounded_def abortError_def sample_abort grounded_response)

lemma grounded_run:
  assumes "\<not> (ac \<and> 8000 \<le> ms)"
  shows "callGemini (sampleEnv ac (grounded ms)) (lit ''Hi'') [] None =
     ([Fetch (GEMINI_API_URL (sampleEnv ac (grounded ms))) (buildPayload (lit ''Hi'') []) 8000],
      Some (Inr \<lparr>rtext = JStr (lit ''Sunny''),
          sources = [\<lparr>uri = JStr (lit ''https://a.example''), title = JStr (lit ''A'')\<rparr>,
                     \<lparr>uri = JStr (lit ''https://b.example''), title = JStr (lit ''External Source'')\<rparr>,
                     \<lparr>uri = JStr [], title = JStr (lit ''External Source'')\<rparr>]\<rparr>))"
  using assms by (simp add: sample_callGemini attempts_first grounded_attempt del: One_nat_def)

lemma textlessThenGrounded_attempt:
  "tryAttempt (sampleEnv True textlessThenGrounded) payload 1 =
     Some (Inl (Classified \<lparr>message = lit ''Could not parse response from Gemini API.'',
                            status = Some 500, details = Some noTextJson\<rparr>))"
  "tryAttempt (sampleEnv True textlessThenGrounded) payload 2 =
     Some (Inr \<lparr>rtext = JStr (lit ''Sunny''),
          sources = [\<lparr>uri = JStr (lit ''https://a.example''), title = JStr (lit ''A'')\<rparr>,
                     \<lparr>uri = JStr (lit ''https://b.example''), title = JStr (lit ''External Source'')\<rparr>,
                     \<lparr>uri = JStr [], title = JStr (lit ''External Source'')\<rparr>]\<rparr>)"
  by (simp_all add: sample_tryAttempt textlessThenGrounded_def textless_def grounded_def
      sample_abort textless_response grounded_response del: One_nat_def)

lemma textlessThenGrounded_run:
  "callGemini (sampleEnv True textlessThenGrounded) (lit ''Hi'') [] None =
     ([Fetch (GEMINI_API_URL (sampleEnv True textlessThenGrounded)) (buildPayload (lit ''Hi'') []) 8000,
       Delay 200,
       Fetch (GEMINI_API_URL (sampleEnv True textlessThenGrounded)) (buildPayload (lit ''Hi'') []) 16000],
      Some (Inr \<lparr>rtext = JStr (lit ''Sunny''),
          sources = [\<lparr>uri = JStr (lit ''https://a.example''), title = JStr (lit ''A'')\<rparr>,
                     \<lparr>uri = JStr (lit ''https://b.example''), title = JStr (lit ''External Source'')\<rparr>,
                     \<lparr>uri = JStr [], title = JStr (lit ''External Source'')\<rparr>]\<rparr>))"
  using first_failure [OF textlessThenGrounded_attempt(1), of "buildPayload (lit ''Hi'') []"]
  by (simp add: sample_callGemini attempts_last_outcome textlessThenGrounded_attempt(2))

lemma brokenBody_attempt:
  "tryAttempt (sampleEnv True brokenBody) payload 1 =
     Some (Inl (Classified \<lparr>message = lit ''Gemini API Error: 429'', status = Some 429,
                               details = Some (JStr (lit ''Too Many Requests''))\<rparr>))"
  "tryAttempt (sampleEnv True brokenBody) payload 2 =
     Some (Inl (OtherError (lit ''TypeError'') (lit ''terminated'')))"
proof -
  have "lit ''Gemini API Error: '' @ showNat 429 = lit ''Gemini API Error: 429''"
    by (simp add: showNat.simps lit_def)
  moreover have "errorDetails (sampleEnv True brokenBody) (lit ''Too Many Requests'') =
      JStr (lit ''Too Many Requests'')"
    by (simp add: errorDetails_def sample_parse sampleParse_other)
  ultimately show "tryAttempt (sampleEnv True brokenBody) payload 1 =
     Some (Inl (Classified \<lparr>message = lit ''Gemini API Error: 429'', status = Some 429,
                               details = Some (JStr (lit ''Too Many Requests''))\<rparr>))"
    by (simp add: sample_tryAttempt brokenBody_def sample_abort
        handleResponse_not_ok [where btxt = "lit ''Too Many Requests''"] ok_def del: One_nat_def)
  show "tryAttempt (sampleEnv True brokenBody) payload 2 =
     Some (Inl (OtherError (lit ''TypeError'') (lit ''terminated'')))"
    by (simp add: sample_tryAttempt brokenBody_def sample_abort handleResponse_def readBody_def ok_def)
qed

lemma brokenBody_run:
  "callGemini (sampleEnv True brokenBody) (lit ''Hi'') [] None =
     ([Fetch (GEMINI_API_URL (sampleEnv True brokenBody)) (buildPayload (lit ''Hi'') []) 8000,
       Delay 200,
       Fetch (GEMINI_API_URL (sampleEnv True brokenBody)) (buildPayload (lit ''Hi'') []) 16000],
      Some (Inl (Classified \<lparr>message = lit ''terminated'', status = None, details = None\<rparr>)))"
  using two_failures [OF brokenBody_attempt, of "buildPayload (lit ''Hi'') []"]
  by (simp add: sample_callGemini normalizeError_def newGeminiAPIError_def lit_eq_iff lit_empty_iff)

lemma terminated_excludes:
  "\<not> (\<exists>a b. lit ''terminated'' = a @ lit ''Gemini API Error'' @ b)"
  unfolding strIncludes_iff [symmetric] by (simp add: lit_def)


section \<open>The claims\<close>

subsection \<open>C1: empty or whitespace-only prompt at the boundary\<close>

text \<open>
  Claim C1 says that every inbound request whose promptText is empty or only whitespace
  is answered with status 400 and \<open>{error: "Missing promptText"}\<close> before the service is
  invoked. The controller tests \<open>!promptText\<close> only, so a non-empty prompt made of
  whitespace passes that test and reaches \<open>callGemini\<close>, whose own test
  (\<open>!promptText.trim()\<close>) rejects it. With a credential configured the request is
  answered with status 500 and \<open>{error: "promptText is required"}\<close>; no outbound call is
  made.
\<close>

theorem whitespace_prompt_reaches_service:
  assumes "GEMINI_API_KEY e = Some k" and "k \<noteq> []"
    and "map_of kvs (lit ''promptText'') = Some (JStr p)" and "p \<noteq> []" and "trim p = []"
  shows "handleGeminiRequest e (Some (JObj kvs)) =
           ([], Some \<lparr>body = ErrorDetailsBody (lit ''promptText is required'') None,
                      statusCode = 500\<rparr>)"
proof -
  have "callGemini e p si lang =
          ([], Some (Inl (Classified (newGeminiAPIError (lit ''promptText is required'') None None))))"
    for si lang
    using assms by (simp add: callGemini_def)
  moreover have "serviceFailure (Classified (newGeminiAPIError (lit ''promptText is required'') None None))
     = \<lparr>body = ErrorDetailsBody (lit ''promptText is required'') None, statusCode = 500\<rparr>"
    by (simp add: serviceFailure_def newGeminiAPIError_def lit_def)
  ultimately show ?thesis
    using handler_dispatch [OF assms(3,4)] by simp
qed

text \<open>
  C1 at the body \<open>{promptText: "   "}\<close>.
\<close>

theorem whitespace_prompt_reaches_service_witness:
  "handleGeminiRequest (sampleEnv True (grounded 150)) (promptBody (JStr (lit ''   ''))) =
     ([], Some \<lparr>body = ErrorDetailsBody (lit ''promptText is required'') None, statusCode = 500\<rparr>)"
  using whitespace_prompt_reaches_service [of "sampleEnv True (grounded 150)" "lit ''test-key''"
      "[(lit ''promptText'', JStr (lit ''   ''))]" "lit ''   ''"]
  by (simp add: promptBody_def sample_key lit_empty_iff) (simp add: trim_def lit_def isWhiteSpace_def)

subsection \<open>C2: a success response without text\<close>

text \<open>
  Claim C2, as amended: a success response whose first candidate has no text makes the
  attempt fail with the parse error (status 500, details the parsed body), and the
  \<open>catch\<close> treats that like every other failure. On attempt 1 it is followed by the
  backoff of 200 ms and a second outbound call, and the outcome of that second attempt
  decides the run: its result is returned, its failure is normalised and thrown. On
  attempt 2, after a failed attempt 1, the parse error is thrown with the parsed body of
  that response as details. Either way the run makes two outbound calls with one backoff
  of 200 ms between them.
\<close>

theorem response_without_text_is_retried:
  assumes "GEMINI_API_KEY e = Some k" and "k \<noteq> []" and "trim p \<noteq> []"
    and "payload = buildPayload p (buildFinalSystemInstruction (Some si) lang)"
  shows "(awaitFetch e (8000 * 1) (network e (GEMINI_API_URL e) payload 1) = Some (Inr r1)
            \<and> ok r1 \<and> bodyRead r1 = BodyText t1 \<and> JSON_parse e t1 = Inr j1
            \<and> \<not> truthy (candidateText (firstCandidate j1))
          \<longrightarrow> tryAttempt e payload 1 =
                Some (Inl (Classified
                  \<lparr>message = lit ''Could not parse response from Gemini API.'',
                   status = Some 500, details = Some j1\<rparr>))
              \<and> fst (callGemini e p si lang) =
                [Fetch (GEMINI_API_URL e) payload 8000, Delay 200,
                 Fetch (GEMINI_API_URL e) payload 16000]
              \<and> snd (callGemini e p si lang) =
                (case tryAttempt e payload 2 of
                   None \<Rightarrow> None
                 | Some (Inr res) \<Rightarrow> Some (Inr res)
                 | Some (Inl err) \<Rightarrow> Some (Inl (normalizeError err))))
         \<and> (tryAttempt e payload 1 = Some (Inl err1)
            \<and> awaitFetch e (8000 * 2) (network e (GEMINI_API_URL e) payload 2) = Some (Inr r2)
            \<and> ok r2 \<and> bodyRead r2 = BodyText t2 \<and> JSON_parse e t2 = Inr j2
            \<and> \<not> truthy (candidateText (firstCandidate j2))
          \<longrightarrow> callGemini e p si lang =
                ([Fetch (GEMINI_API_URL e) payload 8000, Delay 200,
                  Fetch (GEMINI_API_URL e) payload 16000],
                 Some (Inl (Classified
                   \<lparr>message = lit ''Could not parse response from Gemini API.'',
                    status = Some 500, details = Some j2\<rparr>))))"
proof -
  have run: "callGemini e p si lang = attempts e payload 1"
    using callGemini_attempts [OF assms(1,2,3), of si lang] assms(4) by simp
  have part1: "tryAttempt e payload 1 =
                Some (Inl (Classified
                  \<lparr>message = lit ''Could not parse response from Gemini API.'',
                   status = Some 500, details = Some j1\<rparr>))
              \<and> fst (callGemini e p si lang) =
                [Fetch (GEMINI_API_URL e) payload 8000, Delay 200,
                 Fetch (GEMINI_API_URL e) payload 16000]
              \<and> snd (callGemini e p si lang) =
                (case tryAttempt e payload 2 of
                   None \<Rightarrow> None
                 | Some (Inr res) \<Rightarrow> Some (Inr res)
                 | Some (Inl err) \<Rightarrow> Some (Inl (normalizeError err)))"
    if d: "awaitFetch e (8000 * 1) (network e (GEMINI_API_URL e) payload 1) = Some (Inr r1)"
      and n: "ok r1" "bodyRead r1 = BodyText t1" "JSON_parse e t1 = Inr j1"
        "\<not> truthy (candidateText (firstCandidate j1))"
  proof -
    have t: "tryAttempt e payload 1 = Some (Inl (Classified
          \<lparr>message = lit ''Could not parse response from Gemini API.'', status = Some 500,
           details = Some j1\<rparr>))"
      using tryAttempt_delivered [OF d] handleResponse_no_text [OF n] by simp
    from first_failure [OF t] run t show ?thesis
      by (simp add: attempts_last_outcome del: One_nat_def)
  qed
  have part2: "callGemini e p si lang =
                ([Fetch (GEMINI_API_URL e) payload 8000, Delay 200,
                  Fetch (GEMINI_API_URL e) payload 16000],
                 Some (Inl (Classified
                   \<lparr>message = lit ''Could not parse response from Gemini API.'',
                    status = Some 500, details = Some j2\<rparr>)))"
    if f: "tryAttempt e payload 1 = Some (Inl err1)"
      and d: "awaitFetch e (8000 * 2) (network e (GEMINI_API_URL e) payload 2) = Some (Inr r2)"
      and n: "ok r2" "bodyRead r2 = BodyText t2" "JSON_parse e t2 = Inr j2"
        "\<not> truthy (candidateText (firstCandidate j2))"
  proof -
    have "tryAttempt e payload 2 = Some (Inl (Classified
          \<lparr>message = lit ''Could not parse response from Gemini API.'', status = Some 500,
           details = Some j2\<rparr>))"
      using tryAttempt_delivered [OF d] handleResponse_no_text [OF n] by simp
    from two_failures [OF f this] run show ?thesis
      by (simp add: normalizeError_def)
  qed
  from part1 part2 show ?thesis by blast
qed

text \<open>
  C2 (amended) where the first answer has a candidate without text and the second is
  good, and where every answer has a candidate without text.
\<close>

theorem response_without_text_is_retried_witness:
  "callGemini (sampleEnv True textlessThenGrounded) (lit ''Hi'') [] None =
     ([Fetch (GEMINI_API_URL (sampleEnv True textlessThenGrounded)) (buildPayload (lit ''Hi'') []) 8000,
       Delay 200,
       Fetch (GEMINI_API_URL (sampleEnv True textlessThenGrounded)) (buildPayload (lit ''Hi'') []) 16000],
      Some (Inr \<lparr>rtext = JStr (lit ''Sunny''),
          sources = [\<lparr>uri = JStr (lit ''https://a.example''), title = JStr (lit ''A'')\<rparr>,
                     \<lparr>uri = JStr (lit ''https://b.example''), title = JStr (lit ''External Source'')\<rparr>,
                     \<lparr>uri = JStr [], title = JStr (lit ''External Source'')\<rparr>]\<rparr>))
   \<and> callGemini (sampleEnv True textless) (lit ''Hi'') [] None =
     ([Fetch (GEMINI_API_URL (sampleEnv True textless)) (buildPayload (lit ''Hi'') []) 8000,
       Delay 200,
       Fetch (GEMINI_API_URL (sampleEnv True textless)) (buildPayload (lit ''Hi'') []) 16000],
      Some (Inl (Classified \<lparr>message = lit ''Could not parse response from Gemini API.'',
                               status = Some 500, details = Some noTextJson\<rparr>)))"
proof -
  let ?r = "\<lparr>httpStatus = 200, bodyRead = BodyText noTextBody\<rparr>"
  let ?g = "Classified \<lparr>message = lit ''Could not parse response from Gemini API.'',
                        status = Some 500, details = Some noTextJson\<rparr>"
  have pl: "buildPayload (lit ''Hi'') [] =
      buildPayload (lit ''Hi'') (buildFinalSystemInstruction (Some []) None)"
    by (simp add: buildFinalSystemInstruction_def)
  note a = response_without_text_is_retried
      [OF sample_key key_nonempty hi_trim pl, of True textlessThenGrounded ?r noTextBody noTextJson
         ?g ?r noTextBody noTextJson]
  note b = response_without_text_is_retried
      [OF sample_key key_nonempty hi_trim pl, of True textless ?r noTextBody noTextJson
         ?g ?r noTextBody noTextJson]
  have fa: "awaitFetch (sampleEnv True textlessThenGrounded) (8000 * 1)
        (network (sampleEnv True textlessThenGrounded) (GEMINI_API_URL (sampleEnv True textlessThenGrounded))
           (buildPayload (lit ''Hi'') []) 1) = Some (Inr ?r)"
    by (simp add: sample_network textlessThenGrounded_def textless_def sample_abort)
  have fb: "awaitFetch (sampleEnv True textless) (8000 * 2)
        (network (sampleEnv True textless) (GEMINI_API_URL (sampleEnv True textless))
           (buildPayload (lit ''Hi'') []) 2) = Some (Inr ?r)"
    by (simp add: sample_network textless_def sample_abort)
  have one: "callGemini (sampleEnv True textlessThenGrounded) (lit ''Hi'') [] None =
     ([Fetch (GEMINI_API_URL (sampleEnv True textlessThenGrounded)) (buildPayload (lit ''Hi'') []) 8000,
       Delay 200,
       Fetch (GEMINI_API_URL (sampleEnv True textlessThenGrounded)) (buildPayload (lit ''Hi'') []) 16000],
      Some (Inr \<lparr>rtext = JStr (lit ''Sunny''),
          sources = [\<lparr>uri = JStr (lit ''https://a.example''), title = JStr (lit ''A'')\<rparr>,
                     \<lparr>uri = JStr (lit ''https://b.example''), title = JStr (lit ''External Source'')\<rparr>,
                     \<lparr>uri = JStr [], title = JStr (lit ''External Source'')\<rparr>]\<rparr>))"
    using a fa
    by (simp add: ok_def sample_parse sampleParse_noText noText_no_text
        textlessThenGrounded_attempt(2) prod_eq_iff del: One_nat_def)
  have two: "callGemini (sampleEnv True textless) (lit ''Hi'') [] None =
     ([Fetch (GEMINI_API_URL (sampleEnv True textless)) (buildPayload (lit ''Hi'') []) 8000,
       Delay 200,
       Fetch (GEMINI_API_URL (sampleEnv True textless)) (buildPayload (lit ''Hi'') []) 16000],
      Some (Inl ?g))"
    using b fb
    by (simp add: ok_def sample_parse sampleParse_noText noText_no_text textless_attempt
        del: One_nat_def)
  from one two show ?thesis by simp
qed

text \<open>
  C2 as stated (terminal, exactly one outbound call, no retry, no backoff) fails where the
  first answer is a success whose candidate has no text and the second is good: the run
  makes two outbound calls, waits 200 ms between them and returns a result.
\<close>

theorem response_without_text_counterexample:
  "network (sampleEnv True textlessThenGrounded) (GEMINI_API_URL (sampleEnv True textlessThenGrounded))
       (buildPayload (lit ''Hi'') []) 1 =
     Resolves 150 \<lparr>httpStatus = 200, bodyRead = BodyText noTextBody\<rparr>
   \<and> JSON_parse (sampleEnv True textlessThenGrounded) noTextBody = Inr noTextJson
   \<and> candidateText (firstCandidate noTextJson) = None
   \<and> outboundCalls (fst (callGemini (sampleEnv True textlessThenGrounded) (lit ''Hi'') [] None)) = 2
   \<and> backoffDelays (fst (callGemini (sampleEnv True textlessThenGrounded) (lit ''Hi'') [] None)) = [200]
   \<and> outboundCalls (fst (callGemini (sampleEnv True textlessThenGrounded) (lit ''Hi'') [] None)) \<noteq> 1
   \<and> snd (callGemini (sampleEnv True textlessThenGrounded) (lit ''Hi'') [] None) =
       Some (Inr \<lparr>rtext = JStr (lit ''Sunny''),
          sources = [\<lparr>uri = JStr (lit ''https://a.example''), title = JStr (lit ''A'')\<rparr>,
                     \<lparr>uri = JStr (lit ''https://b.example''), title = JStr (lit ''External Source'')\<rparr>,
                     \<lparr>uri = JStr [], title = JStr (lit ''External Source'')\<rparr>]\<rparr>)"
  by (simp add: textlessThenGrounded_run outboundCalls_def backoffDelays_def sample_network
      sample_parse sampleParse_noText noText_no_text)
     (simp add: textlessThenGrounded_def textless_def)

subsection \<open>C3: a non-success status on both attempts\<close>

text \<open>
  Claim C3, as amended: when both attempts receive a response with a non-success status,
  the body read of the first response ends (with the text or with an error) and the body
  of the second response is read, the service makes exactly two outbound calls (timers of
  8000 ms and 16000 ms) with exactly one backoff delay of 200 ms between them, and throws
  the classified error of the second response; the controller answers with status 502,
  that error's message and its details.
\<close>

theorem http_failure_on_both_attempts:
  assumes "GEMINI_API_KEY e = Some k" and "k \<noteq> []"
    and "map_of kvs (lit ''promptText'') = Some (JStr p)" and "trim p \<noteq> []"
    and "si = (case stringField (JObj kvs) (lit ''systemInstruction'') of None \<Rightarrow> [] | Some s \<Rightarrow> s)"
    and "lang = stringField (JObj kvs) (lit ''language'')"
    and "payload = buildPayload p (buildFinalSystemInstruction (Some si) lang)"
    and "awaitFetch e (8000 * 1) (network e (GEMINI_API_URL e) payload 1) = Some (Inr r1)"
    and "\<not> ok r1" and "bodyRead r1 \<noteq> BodyStalls"
    and "awaitFetch e (8000 * 2) (network e (GEMINI_API_URL e) payload 2) = Some (Inr r2)"
    and "\<not> ok r2" and "bodyRead r2 = BodyText txt2"
  shows "callGemini e p si lang =
           ([Fetch (GEMINI_API_URL e) payload 8000, Delay 200, Fetch (GEMINI_API_URL e) payload 16000],
            Some (Inl (Classified
              \<lparr>message = lit ''Gemini API Error: '' @ showNat (httpStatus r2),
               status = Some (httpStatus r2),
               details = Some (errorDetails e txt2)\<rparr>)))
         \<and> handleGeminiRequest e (Some (JObj kvs)) =
           ([Fetch (GEMINI_API_URL e) payload 8000, Delay 200, Fetch (GEMINI_API_URL e) payload 16000],
            Some \<lparr>body = ErrorDetailsBody (lit ''Gemini API Error: '' @ showNat (httpStatus r2))
                           (Some (errorDetails e txt2)),
                  statusCode = 502\<rparr>)"
proof -
  let ?g = "\<lparr>message = lit ''Gemini API Error: '' @ showNat (httpStatus r2),
             status = Some (httpStatus r2), details = Some (errorDetails e txt2)\<rparr>"
  let ?evs = "[Fetch (GEMINI_API_URL e) payload 8000, Delay 200, Fetch (GEMINI_API_URL e) payload 16000]"
  obtain err1 where t1: "tryAttempt e payload 1 = Some (Inl err1)"
    using tryAttempt_delivered [OF assms(8)] handleResponse_not_ok_fails [OF assms(9,10), of e]
    by auto
  have t2: "tryAttempt e payload 2 = Some (Inl (Classified ?g))"
    using tryAttempt_delivered [OF assms(11)] handleResponse_not_ok [OF assms(12,13), of e] by simp
  have "attempts e payload 1 = (?evs, Some (Inl (normalizeError (Classified ?g))))"
    using t1 t2 by (rule two_failures)
  then have run: "callGemini e p si lang = (?evs, Some (Inl (Classified ?g)))"
    using callGemini_attempts [OF assms(1,2,4)] assms(7) by (simp add: normalizeError_def)
  from assms(4) have "p \<noteq> []" by (auto simp: trim_Nil)
  have "serviceFailure (Classified ?g) =
          \<lparr>body = ErrorDetailsBody (message ?g) (details ?g), statusCode = 502\<rparr>"
    using upstream_message_includes [of "showNat (httpStatus r2)"]
    by (simp add: serviceFailure_def strIncludes_iff showNat_nonempty)
  then have "handleGeminiRequest e (Some (JObj kvs)) =
      (?evs, Some \<lparr>body = ErrorDetailsBody (message ?g) (details ?g), statusCode = 502\<rparr>)"
    using handler_dispatch [OF assms(3) \<open>p \<noteq> []\<close>, of e] run assms(5,6) by simp
  with run show ?thesis by simp
qed

text \<open>
  C3 (amended) in the world whose provider always answers 429 with a readable body.
\<close>

theorem http_failure_on_both_attempts_witness:
  "callGemini (sampleEnv True rateLimited) (lit ''Hi'') [] None =
     ([Fetch (GEMINI_API_URL (sampleEnv True rateLimited)) (buildPayload (lit ''Hi'') []) 8000,
       Delay 200,
       Fetch (GEMINI_API_URL (sampleEnv True rateLimited)) (buildPayload (lit ''Hi'') []) 16000],
      Some (Inl (Classified \<lparr>message = lit ''Gemini API Error: 429'', status = Some 429,
                               details = Some (JStr (lit ''Too Many Requests''))\<rparr>)))
   \<and> handleGeminiRequest (sampleEnv True rateLimited) (promptBody (JStr (lit ''Hi''))) =
     ([Fetch (GEMINI_API_URL (sampleEnv True rateLimited)) (buildPayload (lit ''Hi'') []) 8000,
       Delay 200,
       Fetch (GEMINI_API_URL (sampleEnv True rateLimited)) (buildPayload (lit ''Hi'') []) 16000],
      Some \<lparr>body = ErrorDetailsBody (lit ''Gemini API Error: 429'')
                     (Some (JStr (lit ''Too Many Requests''))),
            statusCode = 502\<rparr>)"
proof -
  let ?e = "sampleEnv True rateLimited"
  let ?r = "\<lparr>httpStatus = 429, bodyRead = BodyText (lit ''Too Many Requests'')\<rparr>"
  have msg: "lit ''Gemini API Error: '' @ showNat 429 = lit ''Gemini API Error: 429''"
    by (simp add: showNat.simps lit_def)
  have det: "errorDetails ?e (lit ''Too Many Requests'') = JStr (lit ''Too Many Requests'')"
    by (simp add: errorDetails_def sampleEnv_def sampleParse_other)
  have pl: "buildFinalSystemInstruction (Some []) None = []"
    by (simp add: buildFinalSystemInstruction_def)
  have "callGemini ?e (lit ''Hi'') [] None =
          ([Fetch (GEMINI_API_URL ?e) (buildPayload (lit ''Hi'') []) 8000, Delay 200,
            Fetch (GEMINI_API_URL ?e) (buildPayload (lit ''Hi'') []) 16000],
           Some (Inl (Classified
             \<lparr>message = lit ''Gemini API Error: '' @ showNat (httpStatus ?r),
              status = Some (httpStatus ?r),
              details = Some (errorDetails ?e (lit ''Too Many Requests''))\<rparr>)))
        \<and> handleGeminiRequest ?e (Some (JObj [(lit ''promptText'', JStr (lit ''Hi''))])) =
          ([Fetch (GEMINI_API_URL ?e) (buildPayload (lit ''Hi'') []) 8000, Delay 200,
            Fetch (GEMINI_API_URL ?e) (buildPayload (lit ''Hi'') []) 16000],
           Some \<lparr>body = ErrorDetailsBody (lit ''Gemini API Error: '' @ showNat (httpStatus ?r))
                          (Some (errorDetails ?e (lit ''Too Many Requests''))),
                 statusCode = 502\<rparr>)"
    by (rule http_failure_on_both_attempts [where k = "lit ''test-key''" and ?r1.0 = ?r and ?r2.0 = ?r])
       (simp_all add: sample_key key_nonempty hi_trim stringField_def lit_eq_iff pl ok_def,
        simp_all add: sampleEnv_def rateLimited_def)
  then show ?thesis by (simp add: msg det promptBody_def)
qed

text \<open>
  C3 as stated fails where the provider answers 429 twice and the body of the second
  answer breaks off: \<open>resp.text()\<close> throws, the error is normalised to a
  \<open>GeminiAPIError\<close> whose message lacks the marker, and the controller answers with
  status 500.
\<close>

theorem broken_body_counterexample:
  "brokenBody 1 = Resolves 150 \<lparr>httpStatus = 429, bodyRead = BodyText (lit ''Too Many Requests'')\<rparr>
   \<and> brokenBody 2 =
       Resolves 150 \<lparr>httpStatus = 429, bodyRead = BodyFails (lit ''TypeError'') (lit ''terminated'')\<rparr>
   \<and> handleGeminiRequest (sampleEnv True brokenBody) (promptBody (JStr (lit ''Hi''))) =
     ([Fetch (GEMINI_API_URL (sampleEnv True brokenBody)) (buildPayload (lit ''Hi'') []) 8000,
       Delay 200,
       Fetch (GEMINI_API_URL (sampleEnv True brokenBody)) (buildPayload (lit ''Hi'') []) 16000],
      Some \<lparr>body = ErrorDetailsBody (lit ''terminated'') None, statusCode = 500\<rparr>)"
proof -
  have "serviceFailure (Classified \<lparr>message = lit ''terminated'', status = None, details = None\<rparr>) =
      \<lparr>body = ErrorDetailsBody (lit ''terminated'') None, statusCode = 500\<rparr>"
    using terminated_excludes by (simp add: serviceFailure_def strIncludes_iff lit_empty_iff)
  then show ?thesis
    using handler_dispatch [of "[(lit ''promptText'', JStr (lit ''Hi''))]" "lit ''Hi''"
        "sampleEnv True brokenBody"]
    by (simp add: promptBody_def stringField_def lit_eq_iff lit_empty_iff brokenBody_run)
       (simp add: brokenBody_def)
qed

subsection \<open>C4: normalisation on the final attempt\<close>

text \<open>
  Claim C4: when the first attempt fails and the second attempt fails with \<open>err2\<close>, the
  service throws \<open>err2\<close> unchanged if it is a \<open>GeminiAPIError\<close>; a
  \<open>GeminiAPIError\<close> with the message "Request to Gemini timed out" and neither status nor
  details if \<open>err2\<close> is an \<open>AbortError\<close>; and otherwise a \<open>GeminiAPIError\<close> with the
  message of \<open>err2\<close>, or "Unknown error calling Gemini" when that message is empty.
  Whatever \<open>callGemini\<close> throws, on any path, is a \<open>GeminiAPIError\<close>.
\<close>

theorem final_failure_is_normalised:
  "(GEMINI_API_KEY e = Some k \<and> k \<noteq> [] \<and> trim p \<noteq> []
      \<and> payload = buildPayload p (buildFinalSystemInstruction (Some si) lang)
      \<and> tryAttempt e payload 1 = Some (Inl err1) \<and> tryAttempt e payload 2 = Some (Inl err2)
    \<longrightarrow> snd (callGemini e p si lang) =
          Some (Inl (case err2 of
             Classified g \<Rightarrow> Classified g
           | OtherError n m \<Rightarrow>
               Classified \<lparr>message = (if n = lit ''AbortError'' then lit ''Request to Gemini timed out''
                                       else if m = [] then lit ''Unknown error calling Gemini'' else m),
                           status = None, details = None\<rparr>)))
   \<and> (\<forall>x. snd (callGemini e p si lang) = Some (Inl x) \<longrightarrow> (\<exists>g. x = Classified g))"
proof (intro conjI impI allI)
  assume a: "GEMINI_API_KEY e = Some k \<and> k \<noteq> [] \<and> trim p \<noteq> []
      \<and> payload = buildPayload p (buildFinalSystemInstruction (Some si) lang)
      \<and> tryAttempt e payload 1 = Some (Inl err1) \<and> tryAttempt e payload 2 = Some (Inl err2)"
  then have t: "tryAttempt e payload 1 = Some (Inl err1)" "tryAttempt e payload 2 = Some (Inl err2)"
    by blast+
  from a have "callGemini e p si lang = attempts e payload 1"
    using callGemini_attempts [of e k p si lang] by simp
  also have "\<dots> = ([Fetch (GEMINI_API_URL e) payload 8000, Delay 200,
                     Fetch (GEMINI_API_URL e) payload 16000], Some (Inl (normalizeError err2)))"
    using t by (rule two_failures)
  finally show "snd (callGemini e p si lang) =
          Some (Inl (case err2 of
             Classified g \<Rightarrow> Classified g
           | OtherError n m \<Rightarrow>
               Classified \<lparr>message = (if n = lit ''AbortError'' then lit ''Request to Gemini timed out''
                                       else if m = [] then lit ''Unknown error calling Gemini'' else m),
                           status = None, details = None\<rparr>))"
    by (simp add: normalizeError_def newGeminiAPIError_def split: js_error.splits)
next
  fix x assume "snd (callGemini e p si lang) = Some (Inl x)"
  then show "\<exists>g. x = Classified g" using callGemini_classified by blast
qed

text \<open>
  C4 in three worlds: the network is unreachable, the call never settles, the provider
  answers 429.
\<close>

theorem final_failure_is_normalised_witness:
  "snd (callGemini (sampleEnv True unreachable) (lit ''Hi'') [] None) =
     Some (Inl (Classified \<lparr>message = lit ''fetch failed'', status = None, details = None\<rparr>))
   \<and> snd (callGemini (sampleEnv True hanging) (lit ''Hi'') [] None) =
     Some (Inl (Classified \<lparr>message = lit ''Request to Gemini timed out'', status = None,
                              details = None\<rparr>))
   \<and> snd (callGemini (sampleEnv True rateLimited) (lit ''Hi'') [] None) =
     Some (Inl (Classified \<lparr>message = lit ''Gemini API Error: 429'', status = Some 429,
                               details = Some (JStr (lit ''Too Many Requests''))\<rparr>))"
  using final_failure_is_normalised [of "sampleEnv True unreachable" "lit ''test-key''" "lit ''Hi''"
      "buildPayload (lit ''Hi'') []" "[]" None
      "OtherError (lit ''TypeError'') (lit ''fetch failed'')"
      "OtherError (lit ''TypeError'') (lit ''fetch failed'')"]
    final_failure_is_normalised [of "sampleEnv True hanging" "lit ''test-key''" "lit ''Hi''"
      "buildPayload (lit ''Hi'') []" "[]" None
      "OtherError (lit ''AbortError'') (lit ''This operation was aborted'')"
      "OtherError (lit ''AbortError'') (lit ''This operation was aborted'')"]
    final_failure_is_normalised [of "sampleEnv True rateLimited" "lit ''test-key''" "lit ''Hi''"
      "buildPayload (lit ''Hi'') []" "[]" None
      "Classified \<lparr>message = lit ''Gemini API Error: 429'', status = Some 429,
                               details = Some (JStr (lit ''Too Many Requests''))\<rparr>"
      "Classified \<lparr>message = lit ''Gemini API Error: 429'', status = Some 429,
                               details = Some (JStr (lit ''Too Many Requests''))\<rparr>"]
  by (simp add: sample_key key_nonempty hi_trim buildFinalSystemInstruction_def unreachable_attempt
      hanging_attempt rateLimited_attempt lit_eq_iff lit_empty_iff del: One_nat_def)

subsection \<open>C5: languages other than the two recognised tags\<close>

text \<open>
  Claim C5: for every language other than "ja-JP" and "en-US", an absent language
  included, \<open>buildFinalSystemInstruction\<close> returns the given system instruction unchanged
  (and the empty string for an absent instruction).
\<close>

theorem unrecognised_language_keeps_instruction:
  assumes "language \<noteq> Some (lit ''ja-JP'')" and "language \<noteq> Some (lit ''en-US'')"
  shows "buildFinalSystemInstruction (Some systemInstruction) language = systemInstruction
         \<and> buildFinalSystemInstruction None language = []"
  using assms by (simp add: buildFinalSystemInstruction_def)

text \<open>
  C5 at "fr-FR", at an absent language and at "ja-jp".
\<close>

theorem unrecognised_language_keeps_instruction_witness:
  "buildFinalSystemInstruction (Some (lit ''Be brief.'')) (Some (lit ''fr-FR'')) = lit ''Be brief.''
   \<and> buildFinalSystemInstruction (Some (lit ''Be brief.'')) None = lit ''Be brief.''
   \<and> buildFinalSystemInstruction (Some (lit ''Be brief.'')) (Some (lit ''ja-jp'')) = lit ''Be brief.''"
  using unrecognised_language_keeps_instruction [of "Some (lit ''fr-FR'')" "lit ''Be brief.''"]
    unrecognised_language_keeps_instruction [of None "lit ''Be brief.''"]
    unrecognised_language_keeps_instruction [of "Some (lit ''ja-jp'')" "lit ''Be brief.''"]
  by (simp add: lit_eq_iff)

subsection \<open>C6: the citation sources\<close>

text \<open>
  Claim C6, as amended: for every response that parses successfully the first candidate is
  an object, and the source list is its \<open>groundingMetadata.groundingAttributions\<close> array
  mapped element by element to the web URI, or the empty string when that is missing or
  falsy, and the web title, or "External Source" when that is missing or falsy (an empty
  title included); without grounding metadata or without the attribution list the source
  list is empty.
\<close>

theorem sources_follow_attributions:
  assumes "handleResponse e resp = Some (Inr res)"
    and "bodyRead resp = BodyText bodyTxt" and "JSON_parse e bodyTxt = Inr result"
  shows "\<exists>c. firstCandidate result = Some (JObj c) \<and>
           sources res =
             (case map_of c (lit ''groundingMetadata'') of
                Some (JObj g) \<Rightarrow>
                  (case map_of g (lit ''groundingAttributions'') of
                     Some (JArr arr) \<Rightarrow> map defaultedSource arr
                   | _ \<Rightarrow> [])
              | _ \<Rightarrow> [])"
proof -
  from assms have t: "truthy (candidateText (firstCandidate result))"
    and p: "parseCandidateSources e (firstCandidate result) = Inr (sources res)"
    by (auto simp: handleResponse_def readBody_def parseResult_def Let_def
        split: if_splits option.splits sum.splits)
  from candidateText_object [OF t] obtain c where c: "firstCandidate result = Some (JObj c)" by blast
  with p have "parseCandidateSources e (Some (JObj c)) = Inr (sources res)" by simp
  from parseCandidateSources_object [OF this] c show ?thesis by blast
qed

text \<open>
  C6 (amended) at the sample grounded response.
\<close>

theorem sources_follow_attributions_witness:
  "sources \<lparr>rtext = JStr (lit ''Sunny''),
          sources = [\<lparr>uri = JStr (lit ''https://a.example''), title = JStr (lit ''A'')\<rparr>,
                     \<lparr>uri = JStr (lit ''https://b.example''), title = JStr (lit ''External Source'')\<rparr>,
                     \<lparr>uri = JStr [], title = JStr (lit ''External Source'')\<rparr>]\<rparr>
     = map defaultedSource groundedAttributions"
proof -
  let ?res = "\<lparr>rtext = JStr (lit ''Sunny''),
          sources = [\<lparr>uri = JStr (lit ''https://a.example''), title = JStr (lit ''A'')\<rparr>,
                     \<lparr>uri = JStr (lit ''https://b.example''), title = JStr (lit ''External Source'')\<rparr>,
                     \<lparr>uri = JStr [], title = JStr (lit ''External Source'')\<rparr>]\<rparr>"
  have "\<exists>c. firstCandidate groundedJson = Some (JObj c) \<and>
           sources ?res =
             (case map_of c (lit ''groundingMetadata'') of
                Some (JObj g) \<Rightarrow>
                  (case map_of g (lit ''groundingAttributions'') of
                     Some (JArr arr) \<Rightarrow> map defaultedSource arr
                   | _ \<Rightarrow> [])
              | _ \<Rightarrow> [])"
    by (rule sources_follow_attributions
          [of "sampleEnv True (grounded 150)" "\<lparr>httpStatus = 200, bodyRead = BodyText groundedBody\<rparr>"
              _ groundedBody])
       (simp_all add: grounded_response sample_parse sampleParse_grounded)
  then show ?thesis
    by (auto simp: firstCandidate_def groundedJson_def lit_eq_iff)
qed

text \<open>
  C6 as stated fails at an attribution whose title is present and empty: the claim keeps
  the attribution's title, the code puts the placeholder.
\<close>

theorem empty_title_counterexample:
  "snd (callGemini (sampleEnv True (grounded 150)) (lit ''Hi'') [] None) =
     Some (Inr \<lparr>rtext = JStr (lit ''Sunny''),
          sources = [\<lparr>uri = JStr (lit ''https://a.example''), title = JStr (lit ''A'')\<rparr>,
                     \<lparr>uri = JStr (lit ''https://b.example''), title = JStr (lit ''External Source'')\<rparr>,
                     \<lparr>uri = JStr [], title = JStr (lit ''External Source'')\<rparr>]\<rparr>)
   \<and> map claimedSource groundedAttributions =
         [\<lparr>uri = JStr (lit ''https://a.example''), title = JStr (lit ''A'')\<rparr>,
          \<lparr>uri = JStr (lit ''https://b.example''), title = JStr []\<rparr>,
          \<lparr>uri = JStr [], title = JStr (lit ''External Source'')\<rparr>]
   \<and> snd (callGemini (sampleEnv True (grounded 150)) (lit ''Hi'') [] None) \<noteq>
       Some (Inr \<lparr>rtext = JStr (lit ''Sunny''), sources = map claimedSource groundedAttributions\<rparr>)"
proof -
  have c: "map claimedSource groundedAttributions =
         [\<lparr>uri = JStr (lit ''https://a.example''), title = JStr (lit ''A'')\<rparr>,
          \<lparr>uri = JStr (lit ''https://b.example''), title = JStr []\<rparr>,
          \<lparr>uri = JStr [], title = JStr (lit ''External Source'')\<rparr>]"
    by (simp add: claimedSource_def groundedAttributions_def lit_eq_iff)
  show ?thesis
    unfolding c by (simp add: grounded_run lit_empty_iff)
qed

subsection \<open>C7: the credential is checked first\<close>

text \<open>
  Claim C7: without the credential \<open>callGemini\<close> throws the configuration error with no
  effect at all, whatever the prompt, the empty prompt included: the check stands before
  the prompt check.
\<close>

theorem missing_credential_fails_first:
  assumes "GEMINI_API_KEY e = None"
  shows "callGemini e promptText systemInstruction language =
           ([], Some (Inl (Classified
              \<lparr>message = lit ''Server-side Gemini API key not configured.'',
               status = None, details = None\<rparr>)))"
  using assms by (simp add: callGemini_def newGeminiAPIError_def)

text \<open>
  C7 at an empty and at a valid prompt.
\<close>

theorem missing_credential_fails_first_witness:
  "callGemini ((sampleEnv True (grounded 150))\<lparr>GEMINI_API_KEY := None\<rparr>) [] [] None =
     ([], Some (Inl (Classified
        \<lparr>message = lit ''Server-side Gemini API key not configured.'',
         status = None, details = None\<rparr>)))
   \<and> callGemini ((sampleEnv True (grounded 150))\<lparr>GEMINI_API_KEY := None\<rparr>) (lit ''Rain in Osaka?'') [] None =
     ([], Some (Inl (Classified
        \<lparr>message = lit ''Server-side Gemini API key not configured.'',
         status = None, details = None\<rparr>)))"
  using missing_credential_fails_first [of "(sampleEnv True (grounded 150))\<lparr>GEMINI_API_KEY := None\<rparr>"]
  by (simp add: sampleEnv_def)

subsection \<open>C8: the timeout of an attempt\<close>




subsection \<open>C9: the status of a service failure\<close>

text \<open>
  Claim C9: when \<open>callGemini\<close> throws, the controller answers with status 502 if and
  only if the error's message contains "Gemini API Error", with status 500 otherwise, and
  with the body \<open>{error: message, details: details}\<close>.
\<close>

theorem service_failure_status:
  assumes "map_of kvs (lit ''promptText'') = Some (JStr p)" and "p \<noteq> []"
    and "si = (case stringField (JObj kvs) (lit ''systemInstruction'') of None \<Rightarrow> [] | Some s \<Rightarrow> s)"
    and "lang = stringField (JObj kvs) (lit ''language'')"
    and "callGemini e p si lang = (evs, Some (Inl err))"
  shows "handleGeminiRequest e (Some (JObj kvs)) =
           (evs, Some \<lparr>body = ErrorDetailsBody (thrownMessage err) (thrownDetails err),
                       statusCode = (if \<exists>a b. thrownMessage err = a @ lit ''Gemini API Error'' @ b
                                     then 502 else 500)\<rparr>)"
proof -
  from assms(5) have "snd (callGemini e p si lang) = Some (Inl err)" by simp
  then obtain g where "err = Classified g" "message g \<noteq> []"
    using callGemini_classified by blast
  then have "serviceFailure err =
     \<lparr>body = ErrorDetailsBody (thrownMessage err) (thrownDetails err),
      statusCode = (if \<exists>a b. thrownMessage err = a @ lit ''Gemini API Error'' @ b then 502 else 500)\<rparr>"
    by (simp add: serviceFailure_def strIncludes_iff)
  with assms(3,4,5) show ?thesis
    using handler_dispatch [OF assms(1,2), of e] by simp
qed

text \<open>
  C9 at an upstream 429 (status 502) and at an unreachable network (status 500).
\<close>

theorem service_failure_status_witness:
  "handleGeminiRequest (sampleEnv True rateLimited) (promptBody (JStr (lit ''Hi''))) =
     ([Fetch (GEMINI_API_URL (sampleEnv True rateLimited)) (buildPayload (lit ''Hi'') []) 8000,
       Delay 200,
       Fetch (GEMINI_API_URL (sampleEnv True rateLimited)) (buildPayload (lit ''Hi'') []) 16000],
      Some \<lparr>body = ErrorDetailsBody (lit ''Gemini API Error: 429'')
                     (Some (JStr (lit ''Too Many Requests''))),
            statusCode = 502\<rparr>)
   \<and> handleGeminiRequest (sampleEnv True unreachable) (promptBody (JStr (lit ''Hi''))) =
     ([Fetch (GEMINI_API_URL (sampleEnv True unreachable)) (buildPayload (lit ''Hi'') []) 8000,
       Delay 200,
       Fetch (GEMINI_API_URL (sampleEnv True unreachable)) (buildPayload (lit ''Hi'') []) 16000],
      Some \<lparr>body = ErrorDetailsBody (lit ''fetch failed'') None, statusCode = 500\<rparr>)"
proof -
  have kv: "map_of [(lit ''promptText'', JStr (lit ''Hi''))] (lit ''promptText'') = Some (JStr (lit ''Hi''))"
    "lit ''Hi'' \<noteq> []"
    "[] = (case stringField (JObj [(lit ''promptText'', JStr (lit ''Hi''))]) (lit ''systemInstruction'')
           of None \<Rightarrow> [] | Some s \<Rightarrow> s)"
    "None = stringField (JObj [(lit ''promptText'', JStr (lit ''Hi''))]) (lit ''language'')"
    by (simp_all add: stringField_def lit_eq_iff lit_empty_iff)
  show ?thesis
    using service_failure_status [OF kv rateLimited_run] service_failure_status [OF kv unreachable_run]
      upstream_429_includes fetch_failed_excludes
    by (simp add: promptBody_def)
qed

subsection \<open>C10: a body that is no object, a prompt that is no string\<close>

text \<open>
  Claim C10: when the inbound body is not an object, or its \<open>promptText\<close> is not a
  string, the controller answers with status 400 and \<open>{error: "Missing promptText"}\<close>,
  without calling the service.
\<close>

theorem non_string_prompt_is_missing_prompt:
  assumes "(\<forall>kvs. reqBody \<noteq> Some (JObj kvs))
           \<or> (\<exists>kvs. reqBody = Some (JObj kvs) \<and> (\<forall>s. map_of kvs (lit ''promptText'') \<noteq> Some (JStr s)))"
  shows "handleGeminiRequest e reqBody =
           ([], Some \<lparr>body = ErrorBody (lit ''Missing promptText''), statusCode = 400\<rparr>)"
proof -
  have "(case reqBody of None \<Rightarrow> JObj []
         | Some b \<Rightarrow> if truthy reqBody \<and> typeofObject reqBody then b else JObj []) = pl
        \<Longrightarrow> stringField pl (lit ''promptText'') = None" for pl
  proof (cases reqBody)
    case None
    assume "(case reqBody of None \<Rightarrow> JObj []
         | Some b \<Rightarrow> if truthy reqBody \<and> typeofObject reqBody then b else JObj []) = pl"
    with None show ?thesis by (auto simp: stringField_def)
  next
    case (Some b)
    assume "(case reqBody of None \<Rightarrow> JObj []
         | Some b \<Rightarrow> if truthy reqBody \<and> typeofObject reqBody then b else JObj []) = pl"
    with Some assms show ?thesis
      by (cases b) (auto simp: stringField_def split: option.splits json.splits)
  qed
  then show ?thesis by (simp add: handleGeminiRequest_def Let_def)
qed

text \<open>
  C10 at the bodies \<open>7\<close>, \<open>{promptText: null}\<close> and \<open>{promptText: 42}\<close>.
\<close>

theorem non_string_prompt_is_missing_prompt_witness:
  "handleGeminiRequest (sampleEnv True (grounded 150)) (Some (JNum 7)) =
     ([], Some \<lparr>body = ErrorBody (lit ''Missing promptText''), statusCode = 400\<rparr>)
   \<and> handleGeminiRequest (sampleEnv True (grounded 150)) (promptBody JNull) =
     ([], Some \<lparr>body = ErrorBody (lit ''Missing promptText''), statusCode = 400\<rparr>)
   \<and> handleGeminiRequest (sampleEnv True (grounded 150)) (promptBody (JNum 42)) =
     ([], Some \<lparr>body = ErrorBody (lit ''Missing promptText''), statusCode = 400\<rparr>)"
  using non_string_prompt_is_missing_prompt [of "Some (JNum 7)" "sampleEnv True (grounded 150)"]
    non_string_prompt_is_missing_prompt [of "promptBody JNull" "sampleEnv True (grounded 150)"]
    non_string_prompt_is_missing_prompt [of "promptBody (JNum 42)" "sampleEnv True (grounded 150)"]
  by (simp add: promptBody_def)

end
